theory Spec2Isabelle
  imports Complex_Main
begin

section \<open>JavaScript values used by the video backend\<close>

text \<open>
  The backend computes with JavaScript numbers. They are modelled as exact reals plus the
  one non-number the code can produce, \<open>NaN\<close> (a mean over zero items is \<open>0 / 0\<close>).
  Rounding error of IEEE doubles is not modelled.
\<close>

datatype jsnum = Num real | NaN

text \<open>Comparisons with \<open>NaN\<close> are false; \<open>Math.min\<close> and \<open>Math.max\<close> propagate it.\<close>

fun js_gt :: "jsnum \<Rightarrow> real \<Rightarrow> bool" where
  "js_gt (Num x) y = (x > y)"
| "js_gt NaN y = False"

fun js_lt :: "jsnum \<Rightarrow> real \<Rightarrow> bool" where
  "js_lt (Num x) y = (x < y)"
| "js_lt NaN y = False"

fun js_min :: "jsnum \<Rightarrow> real \<Rightarrow> jsnum" where
  "js_min (Num x) y = Num (min x y)"
| "js_min NaN y = NaN"

fun js_max :: "real \<Rightarrow> jsnum \<Rightarrow> jsnum" where
  "js_max y (Num x) = Num (max y x)"
| "js_max y NaN = NaN"

fun js_times :: "jsnum \<Rightarrow> real \<Rightarrow> jsnum" where
  "js_times (Num x) y = Num (x * y)"
| "js_times NaN y = NaN"

fun js_minus_from :: "real \<Rightarrow> jsnum \<Rightarrow> jsnum" where
  "js_minus_from y (Num x) = Num (y - x)"
| "js_minus_from y NaN = NaN"

fun js_plus :: "jsnum \<Rightarrow> jsnum \<Rightarrow> jsnum" where
  "js_plus (Num x) (Num y) = Num (x + y)"
| "js_plus _ _ = NaN"

text \<open>
  \<open>total / count\<close> where \<open>total\<close> is a sum over \<open>count\<close> items: with no item the
  quotient is \<open>0 / 0\<close>, that is \<open>NaN\<close>.
\<close>

fun js_over_count :: "jsnum \<Rightarrow> nat \<Rightarrow> jsnum" where
  "js_over_count (Num t) n = (if n = 0 then NaN else Num (t / real n))"
| "js_over_count NaN n = NaN"

text \<open>\<open>Math.round\<close> rounds to the nearest integer, a tie going up.\<close>

definition math_round :: "real \<Rightarrow> int" where
  "math_round x = \<lfloor>x + 1 / 2\<rfloor>"

text \<open>\<open>Math.round(x * 100) / 100\<close>\<close>

definition round2 :: "real \<Rightarrow> real" where
  "round2 x = real_of_int (math_round (x * 100)) / 100"

fun js_round2 :: "jsnum \<Rightarrow> jsnum" where
  "js_round2 (Num x) = Num (round2 x)"
| "js_round2 NaN = NaN"

section \<open>Sensitivity analysis: scoring a frame (videoProcessor.js, analyzeFrame)\<close>

record frame_analysis =
  suspicionScore :: real
  brightness :: jsnum
  contrast :: jsnum

text \<open>
  What the image library reports for one frame: the \<open>(mean, stdev)\<close> of each channel,
  together with the value \<open>Math.random()\<close> returns for that frame. \<open>None\<close> stands for
  the image library throwing, which \<open>analyzeFrame\<close> turns into \<open>null\<close>.
\<close>

type_synonym frame_probe = "((real \<times> real) list \<times> real) option"

definition analyzeFrame :: "frame_probe \<Rightarrow> frame_analysis option" where
  "analyzeFrame probe =
     (case probe of
        None \<Rightarrow> None
      | Some (chans, rnd) \<Rightarrow>
          let b = js_over_count (Num (sum_list (map fst chans))) (length chans);
              c = js_over_count (Num (sum_list (map snd chans))) (length chans);
              s0 = (0::real);
              s1 = (if js_lt b 50 \<or> js_gt b 200 then s0 + 0.1 else s0);
              s2 = (if js_gt c 80 then s1 + 0.1 else s1);
              randomFactor = rnd * 0.3;
              s3 = s2 + randomFactor
          in Some \<lparr> suspicionScore = min s3 1.0, brightness = b, contrast = c \<rparr>)"

section \<open>Sensitivity analysis: aggregation and classification\<close>

datatype sens_status = Pending | Processing | Completed | Failed | Skipped

datatype sens_result = Safe | Flagged | UnderReview

record average_scores =
  avg_suspicion :: jsnum
  avg_brightness :: jsnum
  avg_contrast :: jsnum
  avg_highSuspicionFrames :: nat

record analysis_results =
  r_status :: sens_status
  r_result :: sens_result
  r_confidence :: jsnum
  r_adult :: bool
  r_notes :: string
  r_framesAnalyzed :: nat
  r_averageScores :: "average_scores option"
  r_error :: "string option"

definition totalSuspicion :: "frame_analysis list \<Rightarrow> real" where
  "totalSuspicion allAnalyses = sum_list (map suspicionScore allAnalyses)"

definition highSuspicionFrames :: "frame_analysis list \<Rightarrow> nat" where
  "highSuspicionFrames allAnalyses =
     length (filter (\<lambda>a. suspicionScore a > 0.6) allAnalyses)"

text \<open>
  Lines 137 to 195 of \<open>analyzeSensitivity\<close>: the result object built from the scored
  frames.
\<close>

definition buildResults :: "frame_analysis list \<Rightarrow> analysis_results" where
  "buildResults allAnalyses =
     (let frameCount = length allAnalyses;
          high = highSuspicionFrames allAnalyses;
          avgSuspicion = js_over_count (Num (totalSuspicion allAnalyses)) frameCount;
          avgBrightness = js_over_count (foldl js_plus (Num 0) (map brightness allAnalyses)) frameCount;
          avgContrast = js_over_count (foldl js_plus (Num 0) (map contrast allAnalyses)) frameCount;
          (res, conf, notes) =
            (if js_gt avgSuspicion 0.7 \<or> real high > real frameCount * 0.3
             then (Flagged, js_min avgSuspicion 0.9,
                   ''Potentially inappropriate content detected in video frames.'')
             else if js_gt avgSuspicion 0.4 \<or> high > 0
             then (UnderReview, js_min (js_times avgSuspicion 0.8) 0.7,
                   ''Some potentially concerning content detected. Manual review recommended.'')
             else (Safe, js_max 0.85 (js_minus_from 0.98 avgSuspicion),
                   ''Content appears to be safe for general audiences.''))
      in \<lparr> r_status = Completed,
           r_result = res,
           r_confidence = js_round2 conf,
           r_adult = js_gt avgSuspicion 0.6,
           r_notes = notes,
           r_framesAnalyzed = frameCount,
           r_averageScores = Some \<lparr> avg_suspicion = js_round2 avgSuspicion,
                                     avg_brightness = js_round2 avgBrightness,
                                     avg_contrast = js_round2 avgContrast,
                                     avg_highSuspicionFrames = high \<rparr>,
           r_error = None \<rparr>)"




section \<open>Strings\<close>

text \<open>A template literal prints a whole number in decimal.\<close>

function nat_digits :: "nat \<Rightarrow> nat list" where
  "nat_digits n = (if n < 10 then [n] else nat_digits (n div 10) @ [n mod 10])"
  by pat_completeness auto
termination
  by (relation "measure (\<lambda>n. n)") auto

definition show_nat :: "nat \<Rightarrow> string" where
  "show_nat n = map (\<lambda>d. ''0123456789'' ! d) (nat_digits n)"

definition show_int :: "int \<Rightarrow> string" where
  "show_int i = (if i < 0 then CHR ''-'' # show_nat (nat (- i)) else show_nat (nat i))"

text \<open>\<open>String.prototype.startsWith\<close> and \<open>endsWith\<close>.\<close>

definition startsWith :: "string \<Rightarrow> string \<Rightarrow> bool" where
  "startsWith s p = (take (length p) s = p)"

definition endsWith :: "string \<Rightarrow> string \<Rightarrow> bool" where
  "endsWith s p = (length p \<le> length s \<and> drop (length s - length p) s = p)"

text \<open>
  \<open>s.replace(/pat/, "")\<close> for a pattern that is a plain string: the first occurrence
  of \<open>pat\<close> is removed.
\<close>

fun remove_first :: "string \<Rightarrow> string \<Rightarrow> string" where
  "remove_first pat [] = []"
| "remove_first pat (c # cs) =
     (if startsWith (c # cs) pat then drop (length pat) (c # cs)
      else c # remove_first pat cs)"

text \<open>\<open>s.split(d)\<close> for a one-character separator: never an empty array.\<close>

fun split_on :: "char \<Rightarrow> string \<Rightarrow> string list" where
  "split_on d [] = [[]]"
| "split_on d (c # cs) =
     (if c = d then [] # split_on d cs
      else (case split_on d cs of
              [] \<Rightarrow> [[c]]
            | p # ps \<Rightarrow> (c # p) # ps))"

text \<open>\<open>parts[i]\<close> of an array: \<open>undefined\<close> (here \<open>None\<close>) past its end.\<close>

definition at_index :: "'a list \<Rightarrow> nat \<Rightarrow> 'a option" where
  "at_index xs i = (if i < length xs then Some (xs ! i) else None)"

text \<open>A string is truthy when it is defined and not empty.\<close>

fun truthy :: "string option \<Rightarrow> bool" where
  "truthy None = False"
| "truthy (Some s) = (s \<noteq> [])"

text \<open>
  \<open>parseInt(s, 10)\<close>: leading white space is skipped, a sign is read, then the longest
  run of decimal digits; with no digit the result is \<open>NaN\<close>, here \<open>None\<close>.
\<close>

definition digit_of :: "char \<Rightarrow> nat option" where
  "digit_of c = map_of (zip ''0123456789'' [0, 1, 2, 3, 4, 5, 6, 7, 8, 9]) c"

fun leading_digits :: "string \<Rightarrow> nat list" where
  "leading_digits [] = []"
| "leading_digits (c # cs) =
     (case digit_of c of None \<Rightarrow> [] | Some d \<Rightarrow> d # leading_digits cs)"

definition digits_value :: "nat list \<Rightarrow> nat" where
  "digits_value ds = foldl (\<lambda>a d. 10 * a + d) 0 ds"

definition is_space :: "char \<Rightarrow> bool" where
  "is_space c = (c = CHR '' '' \<or> c = CHR 0x09 \<or> c = CHR 0x0A \<or> c = CHR 0x0B
                 \<or> c = CHR 0x0C \<or> c = CHR 0x0D)"

definition parseInt10 :: "string \<Rightarrow> int option" where
  "parseInt10 s =
     (let t = dropWhile is_space s;
          (neg, u) = (case t of
                        [] \<Rightarrow> (False, [])
                      | c # r \<Rightarrow> if c = CHR ''-'' then (True, r)
                                else if c = CHR ''+'' then (False, r)
                                else (False, t));
          ds = leading_digits u
      in if ds = [] then None
         else Some (if neg then - int (digits_value ds) else int (digits_value ds)))"

text \<open>Paths, without normalisation of \<open>.\<close> and \<open>..\<close> segments.\<close>

definition path_join :: "string \<Rightarrow> string \<Rightarrow> string" where
  "path_join a b = a @ ''/'' @ b"

definition path_dirname :: "string \<Rightarrow> string" where
  "path_dirname p =
     (let d = rev (drop 1 (dropWhile (\<lambda>c. c \<noteq> CHR ''/'') (rev p)))
      in if CHR ''/'' \<notin> set p then ''.'' else if d = [] then ''/'' else d)"

definition path_isAbsolute :: "string \<Rightarrow> bool" where
  "path_isAbsolute p = startsWith p ''/''"

text \<open>\<open>path.resolve\<close> against the working directory of the process.\<close>

definition path_resolve :: "string \<Rightarrow> string \<Rightarrow> string" where
  "path_resolve cwd p = (if path_isAbsolute p then p else path_join cwd p)"

section \<open>Exceptions, effects and the broadcast handle\<close>

datatype js_error = JsError (err_name: string) (message: string)

text \<open>
  An asynchronous function of the backend is a state transformer that either returns a
  value or throws. \<open>await\<close> is sequencing; a rejected promise is a thrown error.
\<close>

type_synonym ('s, 'a) js = "'s \<Rightarrow> (js_error + 'a) \<times> 's"

definition js_return :: "'a \<Rightarrow> ('s, 'a) js" where
  "js_return x = (\<lambda>s. (Inr x, s))"

definition js_throw :: "js_error \<Rightarrow> ('s, 'a) js" where
  "js_throw e = (\<lambda>s. (Inl e, s))"

definition js_bind :: "('s, 'a) js \<Rightarrow> ('a \<Rightarrow> ('s, 'b) js) \<Rightarrow> ('s, 'b) js" where
  "js_bind m f = (\<lambda>s. case m s of (Inl e, s') \<Rightarrow> (Inl e, s') | (Inr x, s') \<Rightarrow> f x s')"

definition js_then :: "('s, unit) js \<Rightarrow> ('s, 'b) js \<Rightarrow> ('s, 'b) js" where
  "js_then m k = js_bind m (\<lambda>_. k)"

text \<open>\<open>try { m } catch (error) { h error }\<close>\<close>

definition js_catch :: "('s, 'a) js \<Rightarrow> (js_error \<Rightarrow> ('s, 'a) js) \<Rightarrow> ('s, 'a) js" where
  "js_catch m h = (\<lambda>s. case m s of (Inl e, s') \<Rightarrow> h e s' | (Inr x, s') \<Rightarrow> (Inr x, s'))"

text \<open>A plain state update that cannot throw.\<close>

definition js_modify :: "('s \<Rightarrow> 's) \<Rightarrow> ('s, unit) js" where
  "js_modify f = (\<lambda>s. (Inr (), f s))"

section \<open>The Video Record (models/Video.js)\<close>

datatype video_status = Uploading | VProcessing | VCompleted | VFailed | Archived

fun status_name :: "video_status \<Rightarrow> string" where
  "status_name Uploading = ''uploading''"
| "status_name VProcessing = ''processing''"
| "status_name VCompleted = ''completed''"
| "status_name VFailed = ''failed''"
| "status_name Archived = ''archived''"

datatype visibility = Private | Organization | Public

text \<open>
  The \<open>sensitivityAnalysis\<close> sub-document. \<open>None\<close> is the schema's \<open>null\<close> default:
  the field is unset.
\<close>

record sensitivity =
  s_status :: sens_status
  s_result :: "sens_result option"
  s_confidence :: "jsnum option"
  s_adult :: bool
  s_notes :: "string option"
  s_framesAnalyzed :: nat
  s_averageScores :: "average_scores option"
  s_error :: "string option"

text \<open>A JavaScript value, as far as the metadata object holds one.\<close>

datatype jsval = JNumber jsnum | JString string | JUndefined

record video_metadata =
  md_fileSize :: nat
  md_duration :: real
  md_bitrate :: int
  md_width :: nat
  md_height :: nat
  md_codec :: string
  md_frameRate :: jsval
  md_aspectRatio :: string
  md_hasAudio :: bool

record video =
  v_id :: string
  title :: string
  description :: string
  filePath :: string
  optimizedPath :: "string option"
  mimeType :: string
  duration :: real
  resolution :: "nat \<times> nat"
  thumbnail :: "string option"
  status :: video_status
  processingProgress :: int
  sensitivityAnalysis :: sensitivity
  uploadedBy :: string
  organizationId :: string
  visibility :: visibility
  tags :: "string list"
  metadata :: "video_metadata option"
  isActive :: bool

datatype role = Viewer | Editor | Admin

record user =
  u_id :: string
  u_organizationId :: string
  u_role :: role

text \<open>The schema defaults of the sub-document.\<close>

definition default_sensitivity :: sensitivity where
  "default_sensitivity =
     \<lparr> s_status = Pending, s_result = None, s_confidence = None, s_adult = False,
       s_notes = None, s_framesAnalyzed = 0, s_averageScores = None, s_error = None \<rparr>"

text \<open>\<open>videoSchema.methods.canBeViewedBy\<close>\<close>

definition canBeViewedBy :: "video \<Rightarrow> user \<Rightarrow> bool" where
  "canBeViewedBy v u =
     (if visibility v = Public then True
      else if visibility v = Organization \<and> organizationId v = u_organizationId u then True
      else if visibility v = Private \<and> uploadedBy v = u_id u then True
      else (u_role u = Admin \<and> organizationId v = u_organizationId u))"

section \<open>The broadcast channel (server.js)\<close>

text \<open>
  \<open>io.emit\<close> sends to every connected socket; \<open>io.to(room).emit\<close> sends to the sockets
  that joined \<open>room\<close>. A socket joins \<open>user_<id>\<close> when its client sends
  \<open>join-room\<close> with that id.
\<close>

datatype channel = Everyone | Room string

datatype payload =
    AnalysisProgress string int
  | AnalysisComplete analysis_results
  | AnalysisError string
  | UploadComplete string
  | ProcessingProgress int "string option" string
  | ProcessingComplete string sens_result
  | ProcessingError string

record event =
  ev_channel :: channel
  ev_name :: string
  ev_videoId :: string
  ev_payload :: payload

definition user_room :: "string \<Rightarrow> string" where
  "user_room userId = ''user_'' @ userId"

text \<open>Whether a socket that joined the rooms \<open>joined\<close> is sent an event.\<close>

fun receives :: "string list \<Rightarrow> event \<Rightarrow> bool" where
  "receives joined e =
     (case ev_channel e of Everyone \<Rightarrow> True | Room r \<Rightarrow> r \<in> set joined)"

text \<open>The socket server object. \<open>None\<close> as a handle is JavaScript's \<open>undefined\<close>.\<close>

datatype io_server = IoServer

text \<open>
  What a run can change outside the record it works on: the events sent, the record
  snapshots written by \<open>video.save()\<close>, the scratch directories that exist, and a log
  of the calls of \<open>analyzeSensitivity\<close> (path and video id).
\<close>

record world =
  events :: "event list"
  saved :: "video list"
  dirs :: "string set"
  analysisCalls :: "(string \<times> string) list"

definition undefined_emit :: js_error where
  "undefined_emit =
     JsError ''TypeError'' ''Cannot read properties of undefined (reading 'emit')''"

definition undefined_to :: js_error where
  "undefined_to =
     JsError ''TypeError'' ''Cannot read properties of undefined (reading 'to')''"

text \<open>
  The state of a running function is a pair: its own mutable locals (for a route or the
  pipeline, the record it works on) and the world.
\<close>

definition on_world :: "(world \<Rightarrow> world) \<Rightarrow> ('l \<times> world, unit) js" where
  "on_world f = js_modify (\<lambda>(l, w). (l, f w))"

definition on_local :: "('l \<Rightarrow> 'l) \<Rightarrow> ('l \<times> world, unit) js" where
  "on_local f = js_modify (\<lambda>(l, w). (f l, w))"

definition get_local :: "('l \<times> world, 'l) js" where
  "get_local = (\<lambda>s. (Inr (fst s), s))"

text \<open>Calling a function: it runs on locals of its own, in the caller's world.\<close>

definition js_call :: "'m \<Rightarrow> ('m \<times> world, 'a) js \<Rightarrow> ('l \<times> world, 'a) js" where
  "js_call m0 f = (\<lambda>(l, w). case f (m0, w) of (r, (m, w')) \<Rightarrow> (r, (l, w')))"

definition mk_event :: "channel \<Rightarrow> string \<Rightarrow> string \<Rightarrow> payload \<Rightarrow> event" where
  "mk_event c name videoId p =
     \<lparr> ev_channel = c, ev_name = name, ev_videoId = videoId, ev_payload = p \<rparr>"

text \<open>\<open>io.emit(name, payload)\<close>\<close>

definition io_emit ::
  "io_server option \<Rightarrow> string \<Rightarrow> string \<Rightarrow> payload \<Rightarrow> ('l \<times> world, unit) js" where
  "io_emit io name videoId p =
     (case io of
        None \<Rightarrow> js_throw undefined_emit
      | Some _ \<Rightarrow>
          on_world (\<lambda>w. w\<lparr> events := events w @ [mk_event Everyone name videoId p] \<rparr>))"

text \<open>\<open>io.to(room).emit(name, payload)\<close>\<close>

definition io_to_emit ::
  "io_server option \<Rightarrow> string \<Rightarrow> string \<Rightarrow> string \<Rightarrow> payload \<Rightarrow> ('l \<times> world, unit) js" where
  "io_to_emit io room name videoId p =
     (case io of
        None \<Rightarrow> js_throw undefined_to
      | Some _ \<Rightarrow>
          on_world (\<lambda>w. w\<lparr> events := events w @ [mk_event (Room room) name videoId p] \<rparr>))"

section \<open>Sensitivity analysis engine (videoProcessor.js)\<close>

text \<open>
  What the file system, the frame-extraction subprocess, the image library and
  \<open>Math.random\<close> do during one run of the engine. An outcome \<open>Some e\<close> of a file-system
  call or of the subprocess is the error it rejects with.
\<close>

record analysis_env =
  cwd :: string
  mkdir_frames :: "js_error option"
  ffmpeg_frames :: "js_error option"
  readdir_frames :: "js_error + string list"
  sharp :: "string \<Rightarrow> frame_probe"
  rmdir_frames :: "js_error option"

text \<open>\<open>fs.mkdir(dir, { recursive: true })\<close>\<close>

definition fs_mkdir :: "js_error option \<Rightarrow> string \<Rightarrow> ('l \<times> world, unit) js" where
  "fs_mkdir outcome dir =
     (case outcome of
        Some e \<Rightarrow> js_throw e
      | None \<Rightarrow> on_world (\<lambda>w. w\<lparr> dirs := insert dir (dirs w) \<rparr>))"

text \<open>\<open>fs.rmdir(dir, { recursive: true })\<close>: when it rejects, the directory is still there.\<close>

definition fs_rmdir :: "js_error option \<Rightarrow> string \<Rightarrow> ('l \<times> world, unit) js" where
  "fs_rmdir outcome dir =
     (case outcome of
        Some e \<Rightarrow> js_throw e
      | None \<Rightarrow> on_world (\<lambda>w. w\<lparr> dirs := dirs w - {dir} \<rparr>))"

text \<open>A subprocess or a read whose outcome the environment gives.\<close>

definition awaited :: "js_error option \<Rightarrow> ('s, unit) js" where
  "awaited outcome = (case outcome of Some e \<Rightarrow> js_throw e | None \<Rightarrow> js_return ())"

definition awaited_value :: "js_error + 'a \<Rightarrow> ('s, 'a) js" where
  "awaited_value outcome = (case outcome of Inl e \<Rightarrow> js_throw e | Inr x \<Rightarrow> js_return x)"

definition extractFrames ::
  "analysis_env \<Rightarrow> string \<Rightarrow> string \<Rightarrow> string \<Rightarrow> io_server option
     \<Rightarrow> ('l \<times> world, string list) js" where
  "extractFrames env videoPath outputDir videoId io =
     js_catch
       (js_then (fs_mkdir (mkdir_frames env) outputDir)
       (js_then (io_emit io ''sensitivity-analysis-progress'' videoId
                   (AnalysisProgress ''Extracting video frames...'' 20))
       (js_then (awaited (ffmpeg_frames env))
       (js_bind (awaited_value (readdir_frames env)) (\<lambda>files.
        js_return (map (path_join outputDir)
          (filter (\<lambda>file. startsWith file ''frame_'' \<and> endsWith file ''.jpg'') files)))))))
       (\<lambda>error. js_throw (JsError ''Error'' (''Frame extraction failed: '' @ message error)))"

text \<open>The \<open>for\<close> loop over the frame paths (lines 113 to 128).\<close>

fun scoreFrames ::
  "analysis_env \<Rightarrow> io_server option \<Rightarrow> string \<Rightarrow> nat \<Rightarrow> string list \<Rightarrow> nat
     \<Rightarrow> frame_analysis list \<Rightarrow> ('l \<times> world, frame_analysis list) js" where
  "scoreFrames env io videoId frameTotal [] processedFrames allAnalyses = js_return allAnalyses"
| "scoreFrames env io videoId frameTotal (framePath # rest) processedFrames allAnalyses =
     (let pushed = (case analyzeFrame (sharp env framePath) of
                      None \<Rightarrow> allAnalyses
                    | Some analysis \<Rightarrow> allAnalyses @ [analysis]);
          processed = processedFrames + 1;
          progress = 40 + math_round (real processed / real frameTotal * 40)
      in js_then (io_emit io ''sensitivity-analysis-progress'' videoId
                    (AnalysisProgress
                       (''Analyzed '' @ show_nat processed @ ''/'' @ show_nat frameTotal @ '' frames'')
                       progress))
           (scoreFrames env io videoId frameTotal rest processed pushed))"

text \<open>
  \<open>if (framesDir) await fs.rmdir(framesDir, { recursive: true }).catch(log)\<close>: the local
  \<open>framesDir\<close> is the state's first component.
\<close>

definition cleanupFrames :: "analysis_env \<Rightarrow> (string option \<times> world, unit) js" where
  "cleanupFrames env =
     js_bind get_local (\<lambda>framesDir.
       case framesDir of
         None \<Rightarrow> js_return ()
       | Some dir \<Rightarrow>
           if dir = [] then js_return ()
           else js_catch (fs_rmdir (rmdir_frames env) dir) (\<lambda>err. js_return ()))"

definition framesDirFor :: "analysis_env \<Rightarrow> string \<Rightarrow> string \<Rightarrow> string" where
  "framesDirFor env videoPath videoId =
     (let absoluteVideoPath =
            (if path_isAbsolute videoPath then videoPath else path_resolve (cwd env) videoPath)
      in path_join (path_join (path_dirname absoluteVideoPath) ''temp_frames'') videoId)"

text \<open>The \<open>try\<close> block of \<open>analyzeSensitivity\<close>.\<close>

definition analyzeSensitivity_try ::
  "analysis_env \<Rightarrow> string \<Rightarrow> string \<Rightarrow> io_server option
     \<Rightarrow> (string option \<times> world, analysis_results) js" where
  "analyzeSensitivity_try env videoPath videoId io =
     (let absoluteVideoPath =
            (if path_isAbsolute videoPath then videoPath else path_resolve (cwd env) videoPath)
      in
      js_then (io_emit io ''sensitivity-analysis-progress'' videoId
                 (AnalysisProgress ''Initializing content analysis...'' 0))
     (js_then (io_emit io ''sensitivity-analysis-progress'' videoId
                 (AnalysisProgress ''Preparing image analysis...'' 10))
     (js_then (on_local (\<lambda>_. Some (framesDirFor env videoPath videoId)))
     (js_bind (extractFrames env absoluteVideoPath (framesDirFor env videoPath videoId) videoId io)
        (\<lambda>framePaths.
      js_then (if length framePaths = 0
               then js_throw (JsError ''Error'' ''No frames could be extracted from video'')
               else js_return ())
     (js_then (io_emit io ''sensitivity-analysis-progress'' videoId
                 (AnalysisProgress ''Analyzing video content...'' 40))
     (js_bind (scoreFrames env io videoId (length framePaths) framePaths 0 [])
        (\<lambda>allAnalyses.
      js_then (io_emit io ''sensitivity-analysis-progress'' videoId
                 (AnalysisProgress ''Processing analysis results...'' 85))
     (js_then (cleanupFrames env)
     (js_then (io_emit io ''sensitivity-analysis-complete'' videoId
                 (AnalysisComplete (buildResults allAnalyses)))
     (js_return (buildResults allAnalyses))))))))))))"

text \<open>The object the \<open>catch\<close> block returns (lines 232 to 249).\<close>

definition failedResults :: "js_error \<Rightarrow> analysis_results" where
  "failedResults error =
     \<lparr> r_status = Failed,
       r_result = Safe,
       r_confidence = Num 0,
       r_adult = False,
       r_notes = ''Analysis failed: '' @ message error,
       r_framesAnalyzed = 0,
       r_averageScores = None,
       r_error = Some (message error) \<rparr>"

definition analyzeSensitivity_catch ::
  "analysis_env \<Rightarrow> string \<Rightarrow> io_server option \<Rightarrow> js_error
     \<Rightarrow> (string option \<times> world, analysis_results) js" where
  "analyzeSensitivity_catch env videoId io error =
     js_then (cleanupFrames env)
    (js_then (io_emit io ''sensitivity-analysis-error'' videoId (AnalysisError (message error)))
    (js_return (failedResults error)))"

text \<open>
  \<open>analyzeSensitivity(videoPath, videoId, io)\<close>: \<open>framesDir\<close> starts as \<open>null\<close>; the call
  is entered in the log of calls.
\<close>

definition analyzeSensitivity ::
  "analysis_env \<Rightarrow> string \<Rightarrow> string \<Rightarrow> io_server option \<Rightarrow> ('l \<times> world, analysis_results) js" where
  "analyzeSensitivity env videoPath videoId io =
     js_call None
       (js_then (on_world (\<lambda>w. w\<lparr> analysisCalls := analysisCalls w @ [(videoPath, videoId)] \<rparr>))
          (js_catch (analyzeSensitivity_try env videoPath videoId io)
                    (analyzeSensitivity_catch env videoId io)))"

text \<open>
  What the loop computes when the handle is defined: the analyses it collects and the
  progress events it sends, in closed form.
\<close>

fun scoredFrames :: "analysis_env \<Rightarrow> string list \<Rightarrow> frame_analysis list \<Rightarrow> frame_analysis list" where
  "scoredFrames env [] allAnalyses = allAnalyses"
| "scoredFrames env (framePath # rest) allAnalyses =
     scoredFrames env rest
       (case analyzeFrame (sharp env framePath) of
          None \<Rightarrow> allAnalyses
        | Some analysis \<Rightarrow> allAnalyses @ [analysis])"

fun frameEvents :: "string \<Rightarrow> nat \<Rightarrow> string list \<Rightarrow> nat \<Rightarrow> event list" where
  "frameEvents videoId frameTotal [] processedFrames = []"
| "frameEvents videoId frameTotal (framePath # rest) processedFrames =
     mk_event Everyone ''sensitivity-analysis-progress'' videoId
       (AnalysisProgress
          (''Analyzed '' @ show_nat (processedFrames + 1) @ ''/'' @ show_nat frameTotal @ '' frames'')
          (40 + math_round (real (processedFrames + 1) / real frameTotal * 40)))
     # frameEvents videoId frameTotal rest (processedFrames + 1)"

text \<open>
  The run inside the call, from \<open>framesDir = null\<close>, and what a caller sees of it when
  the run returns: its result and the world it leaves.
\<close>

definition analysisRun ::
  "analysis_env \<Rightarrow> string \<Rightarrow> string \<Rightarrow> io_server option \<Rightarrow> world
     \<Rightarrow> (js_error + analysis_results) \<times> (string option \<times> world)" where
  "analysisRun env videoPath videoId io w =
     js_catch (analyzeSensitivity_try env videoPath videoId io)
              (analyzeSensitivity_catch env videoId io)
       (None, w\<lparr> analysisCalls := analysisCalls w @ [(videoPath, videoId)] \<rparr>)"

definition analysisResult ::
  "analysis_env \<Rightarrow> string \<Rightarrow> string \<Rightarrow> io_server option \<Rightarrow> world \<Rightarrow> analysis_results" where
  "analysisResult env videoPath videoId io w =
     (case fst (analysisRun env videoPath videoId io w) of
        Inr r \<Rightarrow> r
      | Inl e \<Rightarrow> failedResults e)"

definition analysisWorld ::
  "analysis_env \<Rightarrow> string \<Rightarrow> string \<Rightarrow> io_server option \<Rightarrow> world \<Rightarrow> world" where
  "analysisWorld env videoPath videoId io w = snd (snd (analysisRun env videoPath videoId io w))"

section \<open>Media stages (videoProcessor.js)\<close>

text \<open>
  The probing tool's JSON output, after \<open>JSON.parse\<close>. The two numeric fields of the
  format section are given as \<open>parseFloat\<close> and \<open>parseInt\<close> read them, \<open>None\<close> for
  \<open>NaN\<close>.
\<close>

record probe_stream =
  codec_type :: string
  ps_width :: "nat option"
  ps_height :: "nat option"
  codec_name :: "string option"
  r_frame_rate :: "string option"
  display_aspect_ratio :: "string option"

record probe_output =
  streams :: "probe_stream list"
  format_duration :: "real option"
  format_bit_rate :: "int option"

text \<open>\<open>x || d\<close> for a number and for a string.\<close>

definition num_or :: "'a::zero option \<Rightarrow> 'a \<Rightarrow> 'a" where
  "num_or x d = (case x of None \<Rightarrow> d | Some n \<Rightarrow> if n = 0 then d else n)"

definition str_or :: "string option \<Rightarrow> string \<Rightarrow> string" where
  "str_or x d = (if truthy x then the x else d)"

text \<open>
  \<open>extractVideoMetadata\<close>. Its parameters are what the function reads from outside: the
  language's \<open>eval\<close> (a thrown error is \<open>Inl\<close>), the outcome of \<open>fs.stat\<close> (the file
  size) and the outcome of running the probing tool and parsing its output.
\<close>

definition metadata_try ::
  "(string \<Rightarrow> js_error + jsval) \<Rightarrow> js_error + nat \<Rightarrow> js_error + probe_output
     \<Rightarrow> js_error + video_metadata" where
  "metadata_try js_eval stat probe =
     (case stat of
        Inl e \<Rightarrow> Inl e
      | Inr fileSize \<Rightarrow>
     (case probe of
        Inl e \<Rightarrow> Inl e
      | Inr md \<Rightarrow>
          let videoStream = find (\<lambda>stream. codec_type stream = ''video'') (streams md);
              audioStream = find (\<lambda>stream. codec_type stream = ''audio'') (streams md);
              rate = (case videoStream of None \<Rightarrow> None | Some vs \<Rightarrow> r_frame_rate vs)
          in case (if truthy rate then js_eval (the rate) else Inr (JNumber (Num 0))) of
               Inl e \<Rightarrow> Inl e
             | Inr frameRate \<Rightarrow>
                 Inr \<lparr> md_fileSize = fileSize,
                       md_duration = num_or (format_duration md) 0,
                       md_bitrate = num_or (format_bit_rate md) 0,
                       md_width = num_or (case videoStream of None \<Rightarrow> None | Some vs \<Rightarrow> ps_width vs) 0,
                       md_height = num_or (case videoStream of None \<Rightarrow> None | Some vs \<Rightarrow> ps_height vs) 0,
                       md_codec = str_or (case videoStream of None \<Rightarrow> None | Some vs \<Rightarrow> codec_name vs)
                                    ''unknown'',
                       md_frameRate = frameRate,
                       md_aspectRatio =
                         str_or (case videoStream of None \<Rightarrow> None | Some vs \<Rightarrow> display_aspect_ratio vs)
                           ''unknown'',
                       md_hasAudio = (audioStream \<noteq> None) \<rparr>))"

definition metadata_defaults :: "nat \<Rightarrow> video_metadata" where
  "metadata_defaults fileSize =
     \<lparr> md_fileSize = fileSize, md_duration = 0, md_bitrate = 0, md_width = 0, md_height = 0,
       md_codec = ''unknown'', md_frameRate = JNumber (Num 0), md_aspectRatio = ''unknown'',
       md_hasAudio = False \<rparr>"

definition extractVideoMetadata ::
  "(string \<Rightarrow> js_error + jsval) \<Rightarrow> js_error + nat \<Rightarrow> js_error + probe_output
     \<Rightarrow> js_error + video_metadata" where
  "extractVideoMetadata js_eval stat probe =
     (case metadata_try js_eval stat probe of
        Inr m \<Rightarrow> Inr m
      | Inl error \<Rightarrow>
          (case stat of Inl e \<Rightarrow> Inl e | Inr fileSize \<Rightarrow> Inr (metadata_defaults fileSize)))"

text \<open>The frame rate as the specification words it: numerator over denominator.\<close>

definition spec_frameRate :: "string \<Rightarrow> jsnum" where
  "spec_frameRate s =
     (case split_on (CHR ''/'') s of
        [n, d] \<Rightarrow>
          (case (parseInt10 n, parseInt10 d) of
             (Some a, Some b) \<Rightarrow> if b = 0 then NaN else Num (real_of_int a / real_of_int b)
           | _ \<Rightarrow> NaN)
      | _ \<Rightarrow> NaN)"

record transcode_env =
  mkdir_optimized :: "js_error option"
  ffmpeg_optimize :: "js_error option"
  optimized_exists :: bool

definition optimizeVideoForStreaming ::
  "transcode_env \<Rightarrow> string \<Rightarrow> string \<Rightarrow> ('s, string) js" where
  "optimizeVideoForStreaming env inputPath outputPath =
     js_catch
       (js_then (awaited (mkdir_optimized env))
       (js_then (awaited (ffmpeg_optimize env))
       (js_catch
          (if optimized_exists env then js_return outputPath
           else js_throw (JsError ''Error'' ''ENOENT: no such file or directory''))
          (\<lambda>_. js_throw (JsError ''Error'' ''Optimized video file was not created'')))))
       (\<lambda>error. js_throw (JsError ''Error'' ''Failed to optimize video for streaming''))"

record thumbnail_env =
  date_now :: nat
  mkdir_thumbnails :: "js_error option"
  ffmpeg_thumbnail :: "js_error option"
  thumbnail_exists :: bool

definition generateThumbnail ::
  "thumbnail_env \<Rightarrow> string \<Rightarrow> string \<Rightarrow> ('s, string option) js" where
  "generateThumbnail env videoPath outputPath =
     js_catch
       (let thumbnailName = ''thumb_'' @ show_nat (date_now env) @ ''.jpg'' in
        js_then (awaited (mkdir_thumbnails env))
       (js_then (awaited (ffmpeg_thumbnail env))
       (js_catch
          (if thumbnail_exists env then js_return (Some thumbnailName)
           else js_throw (JsError ''Error'' ''ENOENT: no such file or directory''))
          (\<lambda>_. js_return None))))
       (\<lambda>error. js_return None)"

section \<open>Pipeline orchestrator (processVideoAsync)\<close>

record pipeline_env =
  pe_eval :: "string \<Rightarrow> js_error + jsval"
  pe_stat :: "js_error + nat"
  pe_probe :: "js_error + probe_output"
  pe_transcode :: transcode_env
  pe_thumbnail :: thumbnail_env
  pe_analysis :: analysis_env

text \<open>\<open>video.save()\<close>: the record as it is now is written. Persistence itself never fails here.\<close>

definition save :: "(video \<times> world, unit) js" where
  "save = js_modify (\<lambda>(v, w). (v, w\<lparr> saved := saved w @ [v] \<rparr>))"

text \<open>\<open>videoSchema.methods.updateProgress\<close>\<close>

definition updateProgress :: "int \<Rightarrow> video_status option \<Rightarrow> (video \<times> world, unit) js" where
  "updateProgress progress st =
     js_then
       (on_local (\<lambda>v. let v1 = v\<lparr> processingProgress := min 100 (max 0 progress) \<rparr>
                       in (case st of None \<Rightarrow> v1 | Some s' \<Rightarrow> v1\<lparr> status := s' \<rparr>)))
       save"

text \<open>\<open>io.to(`user_${video.uploadedBy}`).emit(name, { videoId: video._id, ... })\<close>\<close>

definition emit_to_uploader ::
  "io_server option \<Rightarrow> string \<Rightarrow> payload \<Rightarrow> (video \<times> world, unit) js" where
  "emit_to_uploader io name p =
     js_bind get_local (\<lambda>v. io_to_emit io (user_room (uploadedBy v)) name (v_id v) p)"

text \<open>\<open>{ ...video.sensitivityAnalysis, ...analysisResults }\<close>: every key is one of the results.\<close>

definition mergeResults :: "sensitivity \<Rightarrow> analysis_results \<Rightarrow> sensitivity" where
  "mergeResults old r =
     old\<lparr> s_status := r_status r,
          s_result := Some (r_result r),
          s_confidence := Some (r_confidence r),
          s_adult := r_adult r,
          s_notes := Some (r_notes r),
          s_framesAnalyzed := r_framesAnalyzed r,
          s_averageScores := r_averageScores r,
          s_error := r_error r \<rparr>"

text \<open>The \<open>try\<close> block, stage by stage; every value a later stage needs is in the record.\<close>

definition stage_start :: "io_server option \<Rightarrow> (video \<times> world, unit) js" where
  "stage_start io =
     js_then (updateProgress 10 (Some VProcessing))
       (emit_to_uploader io ''video-processing-progress''
          (ProcessingProgress 10 (Some ''processing'') ''Starting video processing...''))"

definition stage_metadata :: "pipeline_env \<Rightarrow> io_server option \<Rightarrow> (video \<times> world, unit) js" where
  "stage_metadata env io =
     js_bind (awaited_value (extractVideoMetadata (pe_eval env) (pe_stat env) (pe_probe env)))
       (\<lambda>m.
     js_then (on_local (\<lambda>v. v\<lparr> metadata := Some m, duration := md_duration m,
                                 resolution := (md_width m, md_height m) \<rparr>))
    (js_then (updateProgress 20 None)
       (emit_to_uploader io ''video-processing-progress''
          (ProcessingProgress 20 None ''Metadata extracted...''))))"

definition stage_transcode :: "pipeline_env \<Rightarrow> io_server option \<Rightarrow> (video \<times> world, unit) js" where
  "stage_transcode env io =
     js_bind get_local (\<lambda>v0.
       let optimizedDir = ''uploads/optimized'';
           optimized = path_join optimizedDir (v_id v0 @ ''.mp4'')
       in
     js_bind (optimizeVideoForStreaming (pe_transcode env) (filePath v0) optimized) (\<lambda>_.
     js_then (on_local (\<lambda>v. v\<lparr> optimizedPath := Some optimized \<rparr>))
    (js_then (updateProgress 40 None)
       (emit_to_uploader io ''video-processing-progress''
          (ProcessingProgress 40 None ''Video optimized for streaming...'')))))"

definition stage_thumbnail :: "pipeline_env \<Rightarrow> io_server option \<Rightarrow> (video \<times> world, unit) js" where
  "stage_thumbnail env io =
     js_bind get_local (\<lambda>v0.
     js_bind (generateThumbnail (pe_thumbnail env) (filePath v0) ''uploads/thumbnails'') (\<lambda>t.
     js_then (on_local (\<lambda>v. v\<lparr> thumbnail := t \<rparr>))
    (js_then (updateProgress 60 None)
       (emit_to_uploader io ''video-processing-progress''
          (ProcessingProgress 60 None ''Thumbnail generated...'')))))"

definition stage_analysis :: "pipeline_env \<Rightarrow> io_server option \<Rightarrow> (video \<times> world, unit) js" where
  "stage_analysis env io =
     js_then (on_local (\<lambda>v. v\<lparr> sensitivityAnalysis :=
                                  (sensitivityAnalysis v)\<lparr> s_status := Processing \<rparr> \<rparr>))
    (js_then save
    (js_then (emit_to_uploader io ''video-processing-progress''
                (ProcessingProgress 80 None ''Starting sensitivity analysis...''))
    (js_bind get_local (\<lambda>v0.
     js_bind (analyzeSensitivity (pe_analysis env) (filePath v0) (v_id v0) io) (\<lambda>analysisResults.
     js_then (on_local (\<lambda>v. v\<lparr> sensitivityAnalysis :=
                                  mergeResults (sensitivityAnalysis v) analysisResults \<rparr>))
    (js_then (updateProgress 100 (Some VCompleted))
    (js_bind get_local (\<lambda>v.
       io_to_emit io (user_room (uploadedBy v)) ''video-processing-complete'' (v_id v)
         (ProcessingComplete (title v) (r_result analysisResults))))))))))"

definition processVideoAsync_try :: "pipeline_env \<Rightarrow> io_server option \<Rightarrow> (video \<times> world, unit) js" where
  "processVideoAsync_try env io =
     js_then (stage_start io)
    (js_then (stage_metadata env io)
    (js_then (stage_transcode env io)
    (js_then (stage_thumbnail env io)
       (stage_analysis env io))))"

definition processVideoAsync_catch :: "io_server option \<Rightarrow> js_error \<Rightarrow> (video \<times> world, unit) js" where
  "processVideoAsync_catch io error =
     js_then (on_local (\<lambda>v. v\<lparr> status := VFailed,
                                 sensitivityAnalysis :=
                                   (sensitivityAnalysis v)\<lparr> s_status := Failed \<rparr> \<rparr>))
    (js_then save
       (emit_to_uploader io ''video-processing-error'' (ProcessingError (message error))))"

definition processVideoAsync :: "pipeline_env \<Rightarrow> io_server option \<Rightarrow> (video \<times> world, unit) js" where
  "processVideoAsync env io =
     js_catch (processVideoAsync_try env io) (processVideoAsync_catch io)"

text \<open>A world in which nothing has happened yet.\<close>

definition world0 :: world where
  "world0 = \<lparr> events = [], saved = [], dirs = {}, analysisCalls = [] \<rparr>"

text \<open>The record as \<open>updateProgress\<close> leaves it, and when the transcoding stage succeeds.\<close>

definition progressed :: "int \<Rightarrow> video_status option \<Rightarrow> video \<Rightarrow> video" where
  "progressed p st v =
     (let v1 = v\<lparr> processingProgress := min 100 (max 0 p) \<rparr>
      in (case st of None \<Rightarrow> v1 | Some s' \<Rightarrow> v1\<lparr> status := s' \<rparr>))"

definition transcodes :: "transcode_env \<Rightarrow> bool" where
  "transcodes t = (mkdir_optimized t = None \<and> ffmpeg_optimize t = None \<and> optimized_exists t)"

definition thumbnailed :: "thumbnail_env \<Rightarrow> string option" where
  "thumbnailed t =
     (if mkdir_thumbnails t = None \<and> ffmpeg_thumbnail t = None \<and> thumbnail_exists t
      then Some (''thumb_'' @ show_nat (date_now t) @ ''.jpg'') else None)"

text \<open>The metadata a run extracts from a file of size \<open>n\<close>, and the record holding it.\<close>

definition metadataOf :: "pipeline_env \<Rightarrow> nat \<Rightarrow> video_metadata" where
  "metadataOf env n =
     (case metadata_try (pe_eval env) (Inr n) (pe_probe env) of
        Inr m \<Rightarrow> m
      | Inl e \<Rightarrow> metadata_defaults n)"

definition with_metadata :: "video_metadata \<Rightarrow> video \<Rightarrow> video" where
  "with_metadata m v =
     v\<lparr> metadata := Some m, duration := md_duration m, resolution := (md_width m, md_height m) \<rparr>"

section \<open>HTTP routes of the videos\<close>

datatype body =
    JsonMessage string
  | JsonFailure string string
  | JsonAnalysis string sensitivity
  | FileStream "nat list"

record response =
  res_status :: nat
  res_headers :: "(string \<times> string) list"
  res_body :: body

text \<open>\<open>res.status(code).json({ success: ..., message })\<close>\<close>

definition json_response :: "nat \<Rightarrow> string \<Rightarrow> response" where
  "json_response code msg = \<lparr> res_status = code, res_headers = [], res_body = JsonMessage msg \<rparr>"

subsection \<open>Upload, edit and delete\<close>

text \<open>The record \<open>POST /upload\<close> creates; every other field has its schema default.\<close>

definition newVideo ::
  "string \<Rightarrow> string \<Rightarrow> string \<Rightarrow> string \<Rightarrow> string \<Rightarrow> string \<Rightarrow> string \<Rightarrow> visibility
     \<Rightarrow> string list \<Rightarrow> video" where
  "newVideo vid ttl descr path mime uploader org vis tgs =
     \<lparr> v_id = vid, title = ttl, description = descr, filePath = path, optimizedPath = None,
       mimeType = mime, duration = 0, resolution = (0, 0), thumbnail = None,
       status = VProcessing, processingProgress = 0,
       sensitivityAnalysis = default_sensitivity,
       uploadedBy = uploader, organizationId = org, visibility = vis, tags = tgs,
       metadata = None, isActive = True \<rparr>"

text \<open>\<open>PUT /:id\<close> writes only the descriptive fields.\<close>

definition editVideo :: "string \<Rightarrow> string \<Rightarrow> visibility \<Rightarrow> string list \<Rightarrow> video \<Rightarrow> video" where
  "editVideo ttl descr vis tgs v =
     v\<lparr> title := ttl, description := descr, visibility := vis, tags := tgs \<rparr>"

text \<open>\<open>DELETE /:id\<close> is a soft delete.\<close>

definition deleteVideo :: "video \<Rightarrow> video" where
  "deleteVideo v = v\<lparr> isActive := False, status := Archived \<rparr>"

subsection \<open>Streaming: \<open>GET /:id/stream\<close>\<close>

record stream_request =
  param_id :: string
  query_token :: "string option"
  header_authorization :: "string option"
  header_range :: "string option"
  header_origin :: "string option"

text \<open>
  What the route reads from outside: token verification (the user id of the decoded
  token, or the error \<open>jwt.verify\<close> throws), the two database lookups (a lookup can find
  nothing, or throw), the files on disk by resolved path, and the working directory.
\<close>

record backend =
  jwt_verify :: "string \<Rightarrow> js_error + string"
  findUser :: "string \<Rightarrow> js_error + user option"
  findVideo :: "string \<Rightarrow> js_error + video option"
  disk :: "string \<Rightarrow> nat list option"
  server_cwd :: string

text \<open>
  \<open>req.query.token || (req.headers.authorization && req.headers.authorization.split(' ')[1])\<close>
\<close>

definition request_token :: "stream_request \<Rightarrow> string option" where
  "request_token req =
     (if truthy (query_token req) then query_token req
      else if truthy (header_authorization req)
      then at_index (split_on (CHR '' '') (the (header_authorization req))) 1
      else header_authorization req)"

text \<open>
  \<open>fs.createReadStream(path, { start, end })\<close>, from the documentation of Node.js: both
  bounds are inclusive, reading stops at the end of the file, and the call throws a
  \<open>RangeError\<close> when a bound is not a non-negative integer (here \<open>NaN\<close>, that is
  \<open>None\<close>) or when \<open>start\<close> exceeds \<open>end\<close>.
\<close>

definition createReadStream :: "nat list \<Rightarrow> int option \<Rightarrow> int option \<Rightarrow> js_error + nat list" where
  "createReadStream content start end =
     (case start of
        None \<Rightarrow> Inl (JsError ''RangeError'' ''The value of start is out of range'')
      | Some s \<Rightarrow>
     (case end of
        None \<Rightarrow> Inl (JsError ''RangeError'' ''The value of end is out of range'')
      | Some e \<Rightarrow>
          if s < 0 then Inl (JsError ''RangeError'' ''The value of start is out of range'')
          else if e < 0 then Inl (JsError ''RangeError'' ''The value of end is out of range'')
          else if s > e then Inl (JsError ''RangeError'' ''The value of start is out of range'')
          else Inr (take (nat (e - s + 1)) (drop (nat s) content))))"

text \<open>A number in a template literal or a header value.\<close>

definition show_number :: "int option \<Rightarrow> string" where
  "show_number n = (case n of None \<Rightarrow> ''NaN'' | Some i \<Rightarrow> show_int i)"

definition corsHeaders :: "stream_request \<Rightarrow> (string \<times> string) list" where
  "corsHeaders req =
     [(''Access-Control-Allow-Origin'', str_or (header_origin req) ''http://localhost:5173''),
      (''Access-Control-Allow-Credentials'', ''true''),
      (''Access-Control-Expose-Headers'', ''Content-Range, Content-Length, Accept-Ranges'')]"

text \<open>
  Lines 1264 to 1267: the header is cut at \<open>-\<close> after \<open>bytes=\<close> is removed;
  \<open>start\<close> is \<open>parseInt(parts[0], 10)\<close> and \<open>end\<close> is
  \<open>parts[1] ? parseInt(parts[1], 10) : fileSize - 1\<close>.
\<close>

definition range_parts :: "string \<Rightarrow> string list" where
  "range_parts rangeHeader = split_on (CHR ''-'') (remove_first ''bytes='' rangeHeader)"

definition range_start :: "string list \<Rightarrow> int option" where
  "range_start parts = (case at_index parts 0 of None \<Rightarrow> None | Some p \<Rightarrow> parseInt10 p)"

definition range_end :: "string list \<Rightarrow> int \<Rightarrow> int option" where
  "range_end parts fileSize =
     (if truthy (at_index parts 1) then parseInt10 (the (at_index parts 1))
      else Some (fileSize - 1))"

definition chunk_size :: "int option \<Rightarrow> int option \<Rightarrow> int option" where
  "chunk_size start end =
     (case (start, end) of (Some s, Some e) \<Rightarrow> Some ((e - s) + 1) | _ \<Rightarrow> None)"

text \<open>Lines 1252 to 1291: the file is there, with bytes \<open>content\<close>.\<close>

definition serve_file :: "stream_request \<Rightarrow> video \<Rightarrow> nat list \<Rightarrow> js_error + response" where
  "serve_file req video content =
     (let fileSize = int (length content) in
      if truthy (header_range req) then
        let parts = range_parts (the (header_range req));
            start = range_start parts;
            end = range_end parts fileSize;
            chunksize = chunk_size start end
        in (case createReadStream content start end of
              Inl e \<Rightarrow> Inl e
            | Inr file \<Rightarrow>
                Inr \<lparr> res_status = 206,
                      res_headers =
                        [(''Content-Range'',
                            ''bytes '' @ show_number start @ ''-'' @ show_number end @ ''/''
                              @ show_int fileSize),
                         (''Accept-Ranges'', ''bytes''),
                         (''Content-Length'', show_number chunksize),
                         (''Content-Type'', mimeType video)] @ corsHeaders req,
                      res_body = FileStream file \<rparr>)
      else
        Inr \<lparr> res_status = 200,
              res_headers =
                [(''Content-Length'', show_int fileSize),
                 (''Content-Type'', mimeType video)] @ corsHeaders req,
              res_body = FileStream content \<rparr>)"

text \<open>The \<open>try\<close> block of the route.\<close>

definition stream_try :: "backend \<Rightarrow> stream_request \<Rightarrow> js_error + response" where
  "stream_try be req =
     (let token = request_token req in
      if \<not> truthy token then Inr (json_response 401 ''Token required'')
      else
      (case jwt_verify be (the token) of
         Inl e \<Rightarrow> Inl e
       | Inr userId \<Rightarrow>
      (case findUser be userId of
         Inl e \<Rightarrow> Inl e
       | Inr None \<Rightarrow> Inr (json_response 401 ''User not found'')
       | Inr (Some user) \<Rightarrow>
      (case findVideo be (param_id req) of
         Inl e \<Rightarrow> Inl e
       | Inr None \<Rightarrow> Inr (json_response 404 ''Video not found'')
       | Inr (Some video) \<Rightarrow>
          if \<not> isActive video \<or> status video \<noteq> VCompleted
          then Inr (json_response 404
                      (''Video not ready for streaming. Status: '' @ status_name (status video)))
          else if \<not> canBeViewedBy video user
          then Inr (json_response 403 ''Access denied to this video'')
          else
            let videoPath = str_or (optimizedPath video) (filePath video);
                resolved = path_resolve (server_cwd be) videoPath
            in (case disk be resolved of
                  None \<Rightarrow> Inr (json_response 404 ''Video file not found on disk'')
                | Some content \<Rightarrow> serve_file req video content)))))"

definition stream :: "backend \<Rightarrow> stream_request \<Rightarrow> response" where
  "stream be req =
     (case stream_try be req of
        Inr r \<Rightarrow> r
      | Inl error \<Rightarrow> json_response 500 ''Error streaming video'')"



subsection \<open>Re-analysis: \<open>POST /:id/reanalyze\<close>\<close>

text \<open>
  The application settings that hold a socket server, by key. \<open>server.js\<close> registers
  the server once, under \<open>io\<close>; \<open>app.get\<close> of a key never set is \<open>undefined\<close>.
\<close>

definition server_settings :: "io_server \<Rightarrow> string \<Rightarrow> io_server option" where
  "server_settings io = (\<lambda>key. if key = ''io'' then Some io else None)"

text \<open>The route after the record was found: the rest of its \<open>try\<close> block.\<close>

definition reanalyze_found ::
  "(string \<Rightarrow> io_server option) \<Rightarrow> analysis_env \<Rightarrow> (video \<times> world, response) js" where
  "reanalyze_found settings aenv =
     js_then (on_local (\<lambda>v. v\<lparr> sensitivityAnalysis :=
                                  (sensitivityAnalysis v)\<lparr> s_status := Processing \<rparr> \<rparr>))
    (js_then save
    (let io = settings ''socketio'' in
     js_bind get_local (\<lambda>v0.
     js_bind (analyzeSensitivity aenv (filePath v0) (v_id v0) io) (\<lambda>analysisResults.
     js_then (on_local (\<lambda>v. v\<lparr> sensitivityAnalysis :=
                                  mergeResults (sensitivityAnalysis v) analysisResults \<rparr>))
    (js_then save
    (js_bind get_local (\<lambda>v.
       js_return \<lparr> res_status = 200, res_headers = [],
                   res_body = JsonAnalysis ''Sensitivity analysis completed''
                                (sensitivityAnalysis v) \<rparr>)))))))"

text \<open>
  The whole route, given the outcome of \<open>Video.findById\<close>. The result is the response,
  the record object as the route leaves it, and the world.
\<close>

definition reanalyze ::
  "(string \<Rightarrow> io_server option) \<Rightarrow> analysis_env \<Rightarrow> js_error + video option \<Rightarrow> world
     \<Rightarrow> response \<times> video option \<times> world" where
  "reanalyze settings aenv found w =
     (case found of
        Inl error \<Rightarrow>
          (\<lparr> res_status = 500, res_headers = [],
             res_body = JsonFailure ''Error re-analyzing video'' (message error) \<rparr>, None, w)
      | Inr None \<Rightarrow> (json_response 404 ''Video not found'', None, w)
      | Inr (Some video) \<Rightarrow>
          (case reanalyze_found settings aenv (video, w) of
             (Inl error, (v', w')) \<Rightarrow>
               (\<lparr> res_status = 500, res_headers = [],
                  res_body = JsonFailure ''Error re-analyzing video'' (message error) \<rparr>,
                Some v', w')
           | (Inr r, (v', w')) \<Rightarrow> (r, Some v', w')))"

section \<open>Reachable states of a Video Record\<close>

text \<open>
  A record is created by an upload; from then on it is written by the pipeline, by
  re-analysis, by an edit and by the soft delete. Every snapshot one of them saves is
  a state of the record.
\<close>

inductive reachable :: "video \<Rightarrow> bool" where
  created: "reachable (newVideo vid ttl descr path mime uploader org vis tgs)"
| processed:
    "reachable v \<Longrightarrow> v' \<in> set (saved (snd (snd (processVideoAsync env io (v, world0)))))
      \<Longrightarrow> reachable v'"
| reanalyzed:
    "reachable v \<Longrightarrow> v' \<in> set (saved (snd (snd (reanalyze_found settings aenv (v, world0)))))
      \<Longrightarrow> reachable v'"
| edited: "reachable v \<Longrightarrow> reachable (editVideo ttl descr vis tgs v)"
| deleted: "reachable v \<Longrightarrow> reachable (deleteVideo v)"

text \<open>
  The two directions of the specification's invariant on the sensitivity sub-document:
  \<open>result\<close> and \<open>confidence\<close> are set, and the status is \<open>completed\<close>.
\<close>

definition result_and_confidence_set :: "video \<Rightarrow> bool" where
  "result_and_confidence_set v =
     (s_result (sensitivityAnalysis v) \<noteq> None \<and> s_confidence (sensitivityAnalysis v) \<noteq> None)"

definition completed_has_result :: "video \<Rightarrow> bool" where
  "completed_has_result v =
     (s_status (sensitivityAnalysis v) = Completed \<longrightarrow> result_and_confidence_set v)"

section \<open>Concrete inputs\<close>

text \<open>A record as an upload by user \<open>alice\<close> creates it.\<close>

definition example_video :: video where
  "example_video =
     newVideo ''v1'' ''Holiday'' '''' ''/srv/uploads/videos/holiday-1.mp4'' ''video/mp4''
       ''alice'' ''org1'' Private []"

text \<open>
  An analysis run in which one frame is extracted and scored; the frame is mid-grey and
  \<open>Math.random()\<close> gives one half.
\<close>

definition example_analysis_env :: analysis_env where
  "example_analysis_env =
     \<lparr> cwd = ''/srv'', mkdir_frames = None, ffmpeg_frames = None,
       readdir_frames = Inr [''frame_001.jpg''],
       sharp = (\<lambda>framePath. Some ([(100, 10), (100, 10), (100, 10)], 1 / 2)),
       rmdir_frames = None \<rparr>"

text \<open>The same run on a file system that refuses to remove the scratch directory.\<close>

definition rmdir_failing_env :: analysis_env where
  "rmdir_failing_env =
     example_analysis_env\<lparr> rmdir_frames := Some (JsError ''Error'' ''EBUSY: resource busy or locked'') \<rparr>"

text \<open>A run in which the frame-extraction subprocess fails.\<close>

definition ffmpeg_failing_env :: analysis_env where
  "ffmpeg_failing_env =
     example_analysis_env\<lparr> ffmpeg_frames := Some (JsError ''Error'' ''Command failed: ffmpeg'') \<rparr>"

text \<open>Pipeline runs: every tool works; the encoder leaves no artifact; the analysis fails.\<close>

definition example_pipeline_env :: pipeline_env where
  "example_pipeline_env =
     \<lparr> pe_eval = (\<lambda>s. Inr (JNumber (Num 30))),
       pe_stat = Inr 1000,
       pe_probe = Inl (JsError ''Error'' ''Command failed: ffprobe''),
       pe_transcode = \<lparr> mkdir_optimized = None, ffmpeg_optimize = None, optimized_exists = True \<rparr>,
       pe_thumbnail = \<lparr> date_now = 1700000, mkdir_thumbnails = None,
                        ffmpeg_thumbnail = None, thumbnail_exists = True \<rparr>,
       pe_analysis = example_analysis_env \<rparr>"

definition transcode_failing_env :: pipeline_env where
  "transcode_failing_env =
     example_pipeline_env\<lparr> pe_transcode :=
       \<lparr> mkdir_optimized = None, ffmpeg_optimize = None, optimized_exists = False \<rparr> \<rparr>"

definition analysis_failing_env :: pipeline_env where
  "analysis_failing_env = example_pipeline_env\<lparr> pe_analysis := ffmpeg_failing_env \<rparr>"

text \<open>A record whose analysis is in progress.\<close>

definition video_in_analysis :: video where
  "video_in_analysis =
     example_video\<lparr> sensitivityAnalysis := default_sensitivity\<lparr> s_status := Processing \<rparr> \<rparr>"

text \<open>
  A backend holding one user, one completed video of hers and its 1000-byte file; the
  only token that verifies is hers.
\<close>

definition completed_video :: video where
  "completed_video = example_video\<lparr> status := VCompleted, processingProgress := 100 \<rparr>"

definition alice :: user where
  "alice = \<lparr> u_id = ''alice'', u_organizationId = ''org1'', u_role = Editor \<rparr>"

definition example_backend :: backend where
  "example_backend =
     \<lparr> jwt_verify = (\<lambda>token. if token = ''alice-token'' then Inr ''alice''
                                else Inl (JsError ''JsonWebTokenError'' ''jwt malformed'')),
       findUser = (\<lambda>userId. Inr (if userId = ''alice'' then Some alice else None)),
       findVideo = (\<lambda>videoId. Inr (if videoId = ''v1'' then Some completed_video else None)),
       disk = (\<lambda>path. if path = ''/srv/uploads/videos/holiday-1.mp4''
                        then Some (replicate 1000 0) else None),
       server_cwd = ''/srv'' \<rparr>"

definition example_request :: "string option \<Rightarrow> stream_request" where
  "example_request rangeHeader =
     \<lparr> param_id = ''v1'', query_token = Some ''alice-token'', header_authorization = None,
       header_range = rangeHeader, header_origin = None \<rparr>"

text \<open>
  Probe output whose video stream reports the frame rate \<open>rate\<close>, and what JavaScript's
  \<open>eval\<close> gives for two strings: a rational and a sum.
\<close>

definition probe_with_rate :: "string \<Rightarrow> probe_output" where
  "probe_with_rate rate =
     \<lparr> streams =
         [\<lparr> codec_type = ''audio'', ps_width = None, ps_height = None,
             codec_name = Some ''aac'', r_frame_rate = Some ''0/0'',
             display_aspect_ratio = None \<rparr>,
          \<lparr> codec_type = ''video'', ps_width = Some 1920, ps_height = Some 1080,
             codec_name = Some ''h264'', r_frame_rate = Some rate,
             display_aspect_ratio = Some ''16:9'' \<rparr>],
       format_duration = Some 12.5,
       format_bit_rate = Some 800000 \<rparr>"

definition eval_of_examples :: "string \<Rightarrow> js_error + jsval" where
  "eval_of_examples s =
     (if s = ''30000/1001'' then Inr (JNumber (Num (30000 / 1001)))
      else if s = ''1+1'' then Inr (JNumber (Num 2))
      else Inl (JsError ''SyntaxError'' ''Unexpected token''))"

section \<open>Running the effects\<close>

text \<open>How each step acts on a state: the rules by which a run is unfolded.\<close>

lemma io_emit_Some:
  "io_emit (Some x) name vid p (l, w)
     = (Inr (), (l, w\<lparr> events := events w @ [mk_event Everyone name vid p] \<rparr>))"
  by (simp add: io_emit_def on_world_def js_modify_def)

lemma io_emit_None: "io_emit None name vid p s = (Inl undefined_emit, s)"
  by (simp add: io_emit_def js_throw_def)

lemma js_then_apply:
  "js_then m k s = (case m s of (Inl e, s') \<Rightarrow> (Inl e, s') | (Inr u, s') \<Rightarrow> k s')"
  by (simp add: js_then_def js_bind_def)

lemma js_bind_apply:
  "js_bind m f s = (case m s of (Inl e, s') \<Rightarrow> (Inl e, s') | (Inr x, s') \<Rightarrow> f x s')"
  by (simp add: js_bind_def)

lemma js_catch_apply:
  "js_catch m h s = (case m s of (Inl e, s') \<Rightarrow> h e s' | (Inr x, s') \<Rightarrow> (Inr x, s'))"
  by (simp add: js_catch_def)

lemma js_return_apply: "js_return x s = (Inr x, s)"
  by (simp add: js_return_def)

lemma js_throw_apply: "js_throw e s = (Inl e, s)"
  by (simp add: js_throw_def)

lemma on_world_apply: "on_world f (l, w) = (Inr (), (l, f w))"
  by (simp add: on_world_def js_modify_def)

lemma on_local_apply: "on_local f (l, w) = (Inr (), (f l, w))"
  by (simp add: on_local_def js_modify_def)

lemma get_local_apply: "get_local (l, w) = (Inr l, (l, w))"
  by (simp add: get_local_def)

lemmas js_apply = js_then_apply js_bind_apply js_catch_apply js_return_apply js_throw_apply
  on_world_apply on_local_apply get_local_apply

lemma scoreFrames_Some:
  "scoreFrames env (Some x) vid n ps k acc (l, w)
     = (Inr (scoredFrames env ps acc), (l, w\<lparr> events := events w @ frameEvents vid n ps k \<rparr>))"
  by (induction ps arbitrary: k acc w) (simp_all add: Let_def js_apply io_emit_Some)

lemma frameEvents_everyone: "list_all (\<lambda>e. ev_channel e = Everyone) (frameEvents vid n ps k)"
  by (induction ps arbitrary: k) (simp_all add: mk_event_def)

lemma framesDirFor_nonempty: "framesDirFor env p vid \<noteq> []"
  by (simp add: framesDirFor_def path_join_def Let_def)

lemma cleanupFrames_Some:
  "d \<noteq> [] \<Longrightarrow> cleanupFrames env (Some d, w)
     = (Inr (), (Some d, (if rmdir_frames env = None then w\<lparr> dirs := dirs w - {d} \<rparr> else w)))"
  by (simp add: cleanupFrames_def js_apply fs_rmdir_def split: option.splits)

lemma cleanupFrames_None: "cleanupFrames env (None, w) = (Inr (), (None, w))"
  by (simp add: cleanupFrames_def js_apply)

lemma analyzeSensitivity_None:
  "analyzeSensitivity env p vid None (l, w)
     = (Inl undefined_emit, (l, w\<lparr> analysisCalls := analysisCalls w @ [(p, vid)] \<rparr>))"
  by (simp add: analyzeSensitivity_def js_call_def js_apply analyzeSensitivity_try_def
      analyzeSensitivity_catch_def io_emit_None cleanupFrames_None Let_def)


lemma extractFrames_Some:
  "extractFrames env vp d vid (Some x) (l, w) =
     (case mkdir_frames env of
        Some e \<Rightarrow> (Inl (JsError ''Error'' (''Frame extraction failed: '' @ message e)), (l, w))
      | None \<Rightarrow>
          (case (case ffmpeg_frames env of Some e \<Rightarrow> Inl e | None \<Rightarrow> readdir_frames env) of
             Inl e \<Rightarrow> Inl (JsError ''Error'' (''Frame extraction failed: '' @ message e))
           | Inr files \<Rightarrow> Inr (map (path_join d)
                (filter (\<lambda>file. startsWith file ''frame_'' \<and> endsWith file ''.jpg'') files)),
           (l, w\<lparr> dirs := insert d (dirs w),
                   events := events w @ [mk_event Everyone ''sensitivity-analysis-progress'' vid
                      (AnalysisProgress ''Extracting video frames...'' 20)] \<rparr>)))"
  by (simp add: extractFrames_def js_apply fs_mkdir_def io_emit_Some awaited_def awaited_value_def
      split: option.splits sum.splits)

lemma analyzeSensitivity_run:
  "analyzeSensitivity env p vid io (l, w)
     = (fst (analysisRun env p vid io w), (l, analysisWorld env p vid io w))"
  by (simp add: analyzeSensitivity_def js_call_def js_apply analysisRun_def analysisWorld_def
      split: prod.splits)

lemmas analysis_unfold = analysisRun_def js_apply analyzeSensitivity_try_def
  analyzeSensitivity_catch_def io_emit_Some cleanupFrames_Some Let_def extractFrames_Some
  scoreFrames_Some framesDirFor_nonempty

lemma analysisRun_returns:
  "fst (analysisRun env p vid (Some x) w) = Inr (analysisResult env p vid (Some x) w)"
  unfolding analysisResult_def
  by (simp add: analysis_unfold split: option.splits sum.splits)

lemma analysisWorld_saved: "saved (analysisWorld env p vid (Some x) w) = saved w"
  unfolding analysisWorld_def
  by (simp add: analysis_unfold split: option.splits sum.splits)


lemma analysisWorld_calls:
  "analysisCalls (analysisWorld env p vid (Some x) w) = analysisCalls w @ [(p, vid)]"
  unfolding analysisWorld_def
  by (simp add: analysis_unfold split: option.splits sum.splits)

lemma analysisWorld_events:
  "\<exists>evs. events (analysisWorld env p vid (Some x) w)
          = events w @ mk_event Everyone ''sensitivity-analysis-progress'' vid
                (AnalysisProgress ''Initializing content analysis...'' 0) # evs
        \<and> list_all (\<lambda>e. ev_channel e = Everyone) evs"
  unfolding analysisWorld_def
  by (simp add: analysis_unfold frameEvents_everyone split: option.splits sum.splits)
     (simp add: mk_event_def)

lemma analysisWorld_dirs_removed:
  "rmdir_frames env = None \<Longrightarrow> framesDirFor env p vid \<notin> dirs (analysisWorld env p vid (Some x) w)"
  unfolding analysisWorld_def
  by (simp add: analysis_unfold split: option.splits sum.splits)

lemma analysisWorld_dirs_left:
  "rmdir_frames env = Some e \<Longrightarrow> mkdir_frames env = None
     \<Longrightarrow> framesDirFor env p vid \<in> dirs (analysisWorld env p vid (Some x) w)"
  unfolding analysisWorld_def
  by (simp add: analysis_unfold split: option.splits sum.splits)

lemma analysisResult_shape:
  "(\<exists>fs. analysisResult env p vid (Some x) w = buildResults fs)
     \<or> (\<exists>e. analysisResult env p vid (Some x) w = failedResults e)"
  unfolding analysisResult_def
  by (simp add: analysis_unfold split: option.splits sum.splits) blast

section \<open>Classification thresholds\<close>

lemma round2_two_decimals:
  "\<exists>k::int. round2 x = real_of_int k / 100 \<and> \<bar>round2 x - x\<bar> \<le> 1 / 200"
proof -
  let ?k = "math_round (x * 100)"
  have lo: "real_of_int ?k \<le> x * 100 + 1 / 2"
    unfolding math_round_def by (rule of_int_floor_le)
  have hi: "x * 100 + 1 / 2 < real_of_int ?k + 1"
    unfolding math_round_def by linarith
  have "real_of_int ?k / 100 - x \<le> 1 / 200" and "x - real_of_int ?k / 100 \<le> 1 / 200"
    using lo hi by linarith+
  then have "\<bar>real_of_int ?k / 100 - x\<bar> \<le> 1 / 200"
    by linarith
  then show ?thesis
    unfolding round2_def by blast
qed



section \<open>Running the pipeline stages\<close>

lemma io_to_emit_Some:
  "io_to_emit (Some x) room name vid p (l, w)
     = (Inr (), (l, w\<lparr> events := events w @ [mk_event (Room room) name vid p] \<rparr>))"
  by (simp add: io_to_emit_def on_world_def js_modify_def)

lemma io_to_emit_None: "io_to_emit None room name vid p s = (Inl undefined_to, s)"
  by (simp add: io_to_emit_def js_throw_def)

lemma save_apply: "save (v, w) = (Inr (), (v, w\<lparr> saved := saved w @ [v] \<rparr>))"
  by (simp add: save_def js_modify_def)

lemma updateProgress_apply:
  "updateProgress p st (v, w)
     = (Inr (), (progressed p st v, w\<lparr> saved := saved w @ [progressed p st v] \<rparr>))"
  by (simp add: updateProgress_def js_apply save_apply progressed_def)

lemma emit_to_uploader_Some:
  "emit_to_uploader (Some x) name p (v, w)
     = (Inr (), (v, w\<lparr> events := events w @ [mk_event (Room (user_room (uploadedBy v))) name (v_id v) p] \<rparr>))"
  by (simp add: emit_to_uploader_def js_apply io_to_emit_Some)

lemma emit_to_uploader_None: "emit_to_uploader None name p (v, w) = (Inl undefined_to, (v, w))"
  by (simp add: emit_to_uploader_def js_apply io_to_emit_None)

lemma optimizeVideoForStreaming_apply:
  "optimizeVideoForStreaming t a b s
     = ((if transcodes t then Inr b
         else Inl (JsError ''Error'' ''Failed to optimize video for streaming'')), s)"
  by (simp add: optimizeVideoForStreaming_def transcodes_def js_apply awaited_def
      split: option.splits)

lemma generateThumbnail_apply:
  "generateThumbnail t a b s = (Inr (thumbnailed t), s)"
  by (simp add: generateThumbnail_def thumbnailed_def js_apply awaited_def Let_def split: option.splits)

lemma extractVideoMetadata_stat:
  "extractVideoMetadata ev (Inr n) probe
     = Inr (case metadata_try ev (Inr n) probe of Inr m \<Rightarrow> m | Inl e \<Rightarrow> metadata_defaults n)"
  by (simp add: extractVideoMetadata_def split: sum.splits)

lemma stage_start_Some:
  "stage_start (Some x) (v, w)
     = (Inr (), (progressed 10 (Some VProcessing) v,
          w\<lparr> saved := saved w @ [progressed 10 (Some VProcessing) v],
              events := events w @ [mk_event (Room (user_room (uploadedBy v)))
                 ''video-processing-progress'' (v_id v)
                 (ProcessingProgress 10 (Some ''processing'') ''Starting video processing...'')] \<rparr>))"
  by (simp add: stage_start_def js_apply updateProgress_apply emit_to_uploader_Some progressed_def)


lemma extractVideoMetadata_of:
  "extractVideoMetadata (pe_eval env) (Inr n) (pe_probe env) = Inr (metadataOf env n)"
  by (simp add: extractVideoMetadata_stat metadataOf_def)

lemma stage_metadata_Some:
  "pe_stat env = Inr n \<Longrightarrow> stage_metadata env (Some x) (v, w)
     = (Inr (), (progressed 20 None (with_metadata (metadataOf env n) v),
          w\<lparr> saved := saved w @ [progressed 20 None (with_metadata (metadataOf env n) v)],
              events := events w @ [mk_event (Room (user_room (uploadedBy v)))
                 ''video-processing-progress'' (v_id v)
                 (ProcessingProgress 20 None ''Metadata extracted...'')] \<rparr>))"
  by (simp add: stage_metadata_def js_apply updateProgress_apply emit_to_uploader_Some
      progressed_def extractVideoMetadata_of awaited_value_def with_metadata_def)

lemma stage_metadata_throws:
  "pe_stat env = Inl e \<Longrightarrow> stage_metadata env io (v, w) = (Inl e, (v, w))"
  by (simp add: stage_metadata_def js_apply extractVideoMetadata_def metadata_try_def awaited_value_def)

lemma stage_transcode_fails:
  "\<not> transcodes (pe_transcode env) \<Longrightarrow> stage_transcode env io (v, w)
     = (Inl (JsError ''Error'' ''Failed to optimize video for streaming''), (v, w))"
  by (simp add: stage_transcode_def js_apply optimizeVideoForStreaming_apply Let_def)

lemma stage_transcode_Some:
  "transcodes (pe_transcode env) \<Longrightarrow> stage_transcode env (Some x) (v, w)
     = (Inr (), (progressed 40 None (v\<lparr> optimizedPath := Some (path_join ''uploads/optimized'' (v_id v @ ''.mp4'')) \<rparr>),
          w\<lparr> saved := saved w @ [progressed 40 None (v\<lparr> optimizedPath := Some (path_join ''uploads/optimized'' (v_id v @ ''.mp4'')) \<rparr>)],
              events := events w @ [mk_event (Room (user_room (uploadedBy v)))
                 ''video-processing-progress'' (v_id v)
                 (ProcessingProgress 40 None ''Video optimized for streaming...'')] \<rparr>))"
  by (simp add: stage_transcode_def js_apply optimizeVideoForStreaming_apply Let_def
      updateProgress_apply emit_to_uploader_Some progressed_def)

lemma stage_thumbnail_Some:
  "stage_thumbnail env (Some x) (v, w)
     = (Inr (), (progressed 60 None (v\<lparr> thumbnail := thumbnailed (pe_thumbnail env) \<rparr>),
          w\<lparr> saved := saved w @ [progressed 60 None (v\<lparr> thumbnail := thumbnailed (pe_thumbnail env) \<rparr>)],
              events := events w @ [mk_event (Room (user_room (uploadedBy v)))
                 ''video-processing-progress'' (v_id v)
                 (ProcessingProgress 60 None ''Thumbnail generated...'')] \<rparr>))"
  by (simp add: stage_thumbnail_def js_apply generateThumbnail_apply
      updateProgress_apply emit_to_uploader_Some progressed_def)

lemma processVideoAsync_catch_Some:
  "processVideoAsync_catch (Some x) e (v, w)
     = (Inr (), (v\<lparr> status := VFailed,
                       sensitivityAnalysis := (sensitivityAnalysis v)\<lparr> s_status := Failed \<rparr> \<rparr>,
          w\<lparr> saved := saved w @ [v\<lparr> status := VFailed,
                       sensitivityAnalysis := (sensitivityAnalysis v)\<lparr> s_status := Failed \<rparr> \<rparr>],
              events := events w @ [mk_event (Room (user_room (uploadedBy v)))
                 ''video-processing-error'' (v_id v) (ProcessingError (message e))] \<rparr>))"
  by (simp add: processVideoAsync_catch_def js_apply save_apply emit_to_uploader_Some)

lemma stage_analysis_Some:
  "stage_analysis env (Some x) (v, w) =
     (let v1 = v\<lparr> sensitivityAnalysis := (sensitivityAnalysis v)\<lparr> s_status := Processing \<rparr> \<rparr>;
          w1 = w\<lparr> saved := saved w @ [v1],
                   events := events w @ [mk_event (Room (user_room (uploadedBy v)))
                     ''video-processing-progress'' (v_id v)
                     (ProcessingProgress 80 None ''Starting sensitivity analysis...'')] \<rparr>;
          r = analysisResult (pe_analysis env) (filePath v) (v_id v) (Some x) w1;
          w2 = analysisWorld (pe_analysis env) (filePath v) (v_id v) (Some x) w1;
          v2 = progressed 100 (Some VCompleted)
                 (v1\<lparr> sensitivityAnalysis := mergeResults (sensitivityAnalysis v1) r \<rparr>)
      in (Inr (), (v2, w2\<lparr> saved := saved w2 @ [v2],
                            events := events w2 @ [mk_event (Room (user_room (uploadedBy v)))
                              ''video-processing-complete'' (v_id v)
                              (ProcessingComplete (title v) (r_result r))] \<rparr>)))"
  by (simp add: stage_analysis_def js_apply save_apply emit_to_uploader_Some
      analyzeSensitivity_run analysisRun_returns updateProgress_apply io_to_emit_Some
      progressed_def Let_def)

lemma stage_start_None:
  "stage_start None (v, w)
     = (Inl undefined_to, (progressed 10 (Some VProcessing) v,
          w\<lparr> saved := saved w @ [progressed 10 (Some VProcessing) v] \<rparr>))"
  by (simp add: stage_start_def js_apply updateProgress_apply emit_to_uploader_None)

lemma processVideoAsync_catch_None:
  "processVideoAsync_catch None e (v, w)
     = (Inl undefined_to, (v\<lparr> status := VFailed,
                       sensitivityAnalysis := (sensitivityAnalysis v)\<lparr> s_status := Failed \<rparr> \<rparr>,
          w\<lparr> saved := saved w @ [v\<lparr> status := VFailed,
                       sensitivityAnalysis := (sensitivityAnalysis v)\<lparr> s_status := Failed \<rparr> \<rparr>] \<rparr>))"
  by (simp add: processVideoAsync_catch_def js_apply save_apply emit_to_uploader_None)

lemma processVideoAsync_completes:
  assumes stat: "pe_stat env = Inr n"
    and ok: "transcodes (pe_transcode env)"
  shows "\<exists>v' w' w1. processVideoAsync env (Some io) (v, w) = (Inr (), (v', w'))
      \<and> v' \<in> set (saved w')
      \<and> status v' = VCompleted \<and> processingProgress v' = 100
      \<and> sensitivityAnalysis v'
          = mergeResults ((sensitivityAnalysis v)\<lparr> s_status := Processing \<rparr>)
              (analysisResult (pe_analysis env) (filePath v) (v_id v) (Some io) w1)"
  unfolding processVideoAsync_def processVideoAsync_try_def
  by (simp add: js_apply stage_start_Some stage_metadata_Some [OF stat]
      stage_transcode_Some [OF ok] stage_thumbnail_Some stage_analysis_Some
      progressed_def with_metadata_def Let_def) blast

lemma example_env_facts:
  "pe_stat example_pipeline_env = Inr 1000" "transcodes (pe_transcode example_pipeline_env)"
  "pe_stat analysis_failing_env = Inr 1000" "transcodes (pe_transcode analysis_failing_env)"
  "pe_analysis analysis_failing_env = ffmpeg_failing_env"
  "pe_analysis example_pipeline_env = example_analysis_env"
  by (simp_all add: example_pipeline_env_def analysis_failing_env_def transcodes_def)

lemma ffmpeg_failing_result:
  "analysisResult ffmpeg_failing_env p vid (Some x) w
     = failedResults (JsError ''Error'' ''Frame extraction failed: Command failed: ffmpeg'')"
  unfolding analysisResult_def
  by (simp add: analysis_unfold ffmpeg_failing_env_def example_analysis_env_def)

lemma example_analysis_result:
  "analysisResult example_analysis_env p vid (Some x) w
     = buildResults [\<lparr> suspicionScore = 0.15, brightness = Num 100, contrast = Num 10 \<rparr>]"
  unfolding analysisResult_def
  by (simp add: analysis_unfold example_analysis_env_def startsWith_def endsWith_def
      analyzeFrame_def)

section \<open>Result and confidence against the sensitivity status\<close>

text \<open>
  Every write of the pipeline and of re-analysis keeps this: a record whose sensitivity
  status is \<open>completed\<close> has a result and a confidence.
\<close>

lemmas keeps_simps = completed_has_result_def result_and_confidence_set_def progressed_def
  with_metadata_def mergeResults_def

lemma processVideoAsync_keeps:
  assumes v: "completed_has_result v"
    and w: "list_all completed_has_result (saved w)"
  shows "list_all completed_has_result (saved (snd (snd (processVideoAsync env io (v, w)))))"
proof (cases io)
  case None
  then show ?thesis
    using v w unfolding processVideoAsync_def processVideoAsync_try_def
    by (simp add: js_apply stage_start_None processVideoAsync_catch_None keeps_simps)
next
  case (Some x)
  show ?thesis
  proof (cases "pe_stat env")
    case (Inl e)
    then show ?thesis
      using v w Some unfolding processVideoAsync_def processVideoAsync_try_def
      by (simp add: js_apply stage_start_Some stage_metadata_throws processVideoAsync_catch_Some
          keeps_simps)
  next
    case (Inr n)
    show ?thesis
    proof (cases "transcodes (pe_transcode env)")
      case False
      then show ?thesis
        using v w Some unfolding processVideoAsync_def processVideoAsync_try_def
        by (simp add: js_apply stage_start_Some stage_metadata_Some [OF Inr]
            stage_transcode_fails processVideoAsync_catch_Some keeps_simps)
    next
      case True
      then show ?thesis
        using v w Some unfolding processVideoAsync_def processVideoAsync_try_def
        by (simp add: js_apply stage_start_Some stage_metadata_Some [OF Inr]
            stage_transcode_Some stage_thumbnail_Some stage_analysis_Some Let_def
            analysisWorld_saved keeps_simps)
    qed
  qed
qed

lemma reanalyze_found_keeps:
  assumes w: "list_all completed_has_result (saved w)"
  shows "list_all completed_has_result (saved (snd (snd (reanalyze_found settings aenv (v, w)))))"
proof (cases "settings ''socketio''")
  case None
  then show ?thesis
    using w unfolding reanalyze_found_def
    by (simp add: js_apply save_apply analyzeSensitivity_None keeps_simps)
next
  case (Some x)
  then show ?thesis
    using w unfolding reanalyze_found_def
    by (simp add: js_apply save_apply analyzeSensitivity_run analysisRun_returns
        analysisWorld_saved keeps_simps)
qed

text \<open>
  C3, as the code has it. In every reachable state of a Video Record, if the sensitivity
  status is \<open>completed\<close> then \<open>result\<close> and \<open>confidence\<close> are set. The converse
  is not a property of the code: the engine's failure object carries \<open>result: 'safe'\<close>
  and \<open>confidence: 0\<close> beside \<open>status: 'failed'\<close>, and the pipeline merges it into
  the record.
\<close>

theorem completed_sensitivity_has_result:
  assumes "reachable v"
    and "s_status (sensitivityAnalysis v) = Completed"
  shows "s_result (sensitivityAnalysis v) \<noteq> None \<and> s_confidence (sensitivityAnalysis v) \<noteq> None"
proof -
  have "completed_has_result v"
    using assms(1)
  proof (induction rule: reachable.induct)
    case (created vid ttl descr path mime uploader org vis tgs)
    show ?case
      by (simp add: completed_has_result_def newVideo_def default_sensitivity_def)
  next
    case (processed v v' env io)
    have "list_all completed_has_result (saved (snd (snd (processVideoAsync env io (v, world0)))))"
      using processed.IH by (intro processVideoAsync_keeps) (simp_all add: world0_def)
    with processed.hyps(2) show ?case
      by (simp add: list_all_iff)
  next
    case (reanalyzed v v' settings aenv)
    have "list_all completed_has_result (saved (snd (snd (reanalyze_found settings aenv (v, world0)))))"
      by (intro reanalyze_found_keeps) (simp add: world0_def)
    with reanalyzed.hyps(2) show ?case
      by (simp add: list_all_iff)
  next
    case (edited v ttl descr vis tgs)
    then show ?case
      by (simp add: completed_has_result_def result_and_confidence_set_def editVideo_def)
  next
    case (deleted v)
    then show ?case
      by (simp add: completed_has_result_def result_and_confidence_set_def deleteVideo_def)
  qed
  with assms(2) show ?thesis
    by (simp add: completed_has_result_def result_and_confidence_set_def)
qed

theorem completed_sensitivity_has_result_witness:
  "\<exists>v. reachable v \<and> s_status (sensitivityAnalysis v) = Completed
       \<and> s_result (sensitivityAnalysis v) = Some Safe
       \<and> s_confidence (sensitivityAnalysis v) \<noteq> None"
proof -
  obtain v' w' w1 where
    run: "processVideoAsync example_pipeline_env (Some IoServer) (example_video, world0) = (Inr (), (v', w'))"
    and mem: "v' \<in> set (saved w')"
    and sens: "sensitivityAnalysis v'
          = mergeResults ((sensitivityAnalysis example_video)\<lparr> s_status := Processing \<rparr>)
              (analysisResult (pe_analysis example_pipeline_env) (filePath example_video)
                 (v_id example_video) (Some IoServer) w1)"
    using processVideoAsync_completes [OF example_env_facts(1) example_env_facts(2),
        of IoServer example_video world0] by blast
  have "reachable example_video"
    unfolding example_video_def by (rule reachable.created)
  then have r: "reachable v'"
    using mem run by (intro reachable.processed [of example_video v' example_pipeline_env "Some IoServer"]) simp_all
  have c: "s_status (sensitivityAnalysis v') = Completed"
    unfolding sens
    by (simp add: example_env_facts example_analysis_result mergeResults_def buildResults_def Let_def
        split: prod.splits)
  have s: "s_result (sensitivityAnalysis v') = Some Safe"
    unfolding sens
    by (simp add: example_env_facts example_analysis_result mergeResults_def buildResults_def Let_def
        highSuspicionFrames_def totalSuspicion_def)
  show ?thesis
    using completed_sensitivity_has_result [OF r c] r c s by blast
qed

text \<open>
  C3 as stated fails: the record of a run whose frame extraction failed is reachable, has
  \<open>result\<close> and \<open>confidence\<close> set, and its sensitivity status is \<open>failed\<close>.
\<close>

theorem failed_analysis_keeps_result_counterexample:
  "\<not> (\<forall>v. reachable v \<longrightarrow>
        (result_and_confidence_set v \<longleftrightarrow> s_status (sensitivityAnalysis v) = Completed))"
proof -
  obtain v' w' w1 where
    run: "processVideoAsync analysis_failing_env (Some IoServer) (example_video, world0) = (Inr (), (v', w'))"
    and mem: "v' \<in> set (saved w')"
    and sens: "sensitivityAnalysis v'
          = mergeResults ((sensitivityAnalysis example_video)\<lparr> s_status := Processing \<rparr>)
              (analysisResult (pe_analysis analysis_failing_env) (filePath example_video)
                 (v_id example_video) (Some IoServer) w1)"
    using processVideoAsync_completes [OF example_env_facts(3) example_env_facts(4),
        of IoServer example_video world0] by blast
  have "reachable example_video"
    unfolding example_video_def by (rule reachable.created)
  then have r: "reachable v'"
    using mem run by (intro reachable.processed [of example_video v' analysis_failing_env "Some IoServer"]) simp_all
  have "s_status (sensitivityAnalysis v') = Failed"
    and "s_result (sensitivityAnalysis v') = Some Safe"
    and "s_confidence (sensitivityAnalysis v') = Some (Num 0)"
    unfolding sens
    by (simp_all add: example_env_facts ffmpeg_failing_result mergeResults_def failedResults_def)
  then have "result_and_confidence_set v'" "s_status (sensitivityAnalysis v') \<noteq> Completed"
    by (simp_all add: result_and_confidence_set_def)
  with r show ?thesis by blast
qed

section \<open>Printing and reading decimal numbers\<close>

declare nat_digits.simps [simp del]













lemma remove_first_bytes: "remove_first ''bytes='' (''bytes='' @ rest) = rest"
  by (simp add: startsWith_def)


section \<open>The streaming route\<close>










text \<open>
  The rejections of the route that are as the specification says: no token and an unknown
  user are answered 401, a missing record 404, a record that is inactive or not completed
  404 with its status in the message, a principal who may not view the record 403.
\<close>

lemma stream_rejections:
  "\<not> truthy (request_token req) \<Longrightarrow> stream be req = json_response 401 ''Token required''"
  "\<lbrakk> request_token req = Some token; token \<noteq> []; jwt_verify be token = Inr userId;
     findUser be userId = Inr None \<rbrakk>
   \<Longrightarrow> stream be req = json_response 401 ''User not found''"
  "\<lbrakk> request_token req = Some token; token \<noteq> []; jwt_verify be token = Inr userId;
     findUser be userId = Inr (Some user); findVideo be (param_id req) = Inr None \<rbrakk>
   \<Longrightarrow> stream be req = json_response 404 ''Video not found''"
  "\<lbrakk> request_token req = Some token; token \<noteq> []; jwt_verify be token = Inr userId;
     findUser be userId = Inr (Some user); findVideo be (param_id req) = Inr (Some video);
     \<not> isActive video \<or> status video \<noteq> VCompleted \<rbrakk>
   \<Longrightarrow> stream be req = json_response 404
         (''Video not ready for streaming. Status: '' @ status_name (status video))"
  "\<lbrakk> request_token req = Some token; token \<noteq> []; jwt_verify be token = Inr userId;
     findUser be userId = Inr (Some user); findVideo be (param_id req) = Inr (Some video);
     isActive video; status video = VCompleted; \<not> canBeViewedBy video user \<rbrakk>
   \<Longrightarrow> stream be req = json_response 403 ''Access denied to this video''"
  by (simp_all add: stream_def stream_try_def Let_def)

text \<open>
  C4 at the failing input. A token that \<open>jwt.verify\<close> rejects makes it throw inside
  the route's \<open>try\<close> block, and the \<open>catch\<close> block answers every error with 500:
  a request with an invalid token is answered 500, not 401.
\<close>

theorem stream_invalid_token_answers_500:
  assumes "request_token req = Some token" "token \<noteq> []"
    and "jwt_verify be token = Inl e"
  shows "stream be req = json_response 500 ''Error streaming video''"
  using assms by (simp add: stream_def stream_try_def Let_def)

theorem stream_invalid_token_answers_500_witness:
  "request_token (example_request None\<lparr> query_token := Some ''forged-token'' \<rparr>)
       = Some ''forged-token''
   \<and> jwt_verify example_backend ''forged-token''
       = Inl (JsError ''JsonWebTokenError'' ''jwt malformed'')
   \<and> res_status (stream example_backend (example_request None\<lparr> query_token := Some ''forged-token'' \<rparr>))
       = 500"
proof -
  have h1: "request_token (example_request None\<lparr> query_token := Some ''forged-token'' \<rparr>)
       = Some ''forged-token''"
    by (simp add: request_token_def example_request_def)
  have h2: "''forged-token'' \<noteq> []" by simp
  have h3: "jwt_verify example_backend ''forged-token''
       = Inl (JsError ''JsonWebTokenError'' ''jwt malformed'')"
    by (simp add: example_backend_def)
  show ?thesis
    using stream_invalid_token_answers_500 [OF h1 h2 h3] h1 h3
    by (simp add: json_response_def)
qed




section \<open>The frame rate of the metadata\<close>

lemma spec_frameRate_examples:
  "spec_frameRate ''30000/1001'' = Num (30000 / 1001)"
  "spec_frameRate ''1+1'' = NaN"
  by (simp_all add: spec_frameRate_def parseInt10_def is_space_def digit_of_def digits_value_def)

text \<open>
  C2 at the failing input. Whenever the first video stream of the probe output carries a
  non-empty \<open>r_frame_rate\<close> string, \<open>extractVideoMetadata\<close> hands that string, as it
  is, to \<open>eval\<close>, and the frame rate is whatever the evaluation returns: for the
  string \<open>1+1\<close> it is 2, where a numerator and a denominator parsed from it give no
  number at all.
\<close>

theorem frame_rate_is_evaluated:
  assumes "find (\<lambda>stream. codec_type stream = ''video'') (streams probe) = Some vs"
    and "r_frame_rate vs = Some rate" and "rate \<noteq> []"
    and "js_eval rate = Inr value"
  shows "\<exists>m. extractVideoMetadata js_eval (Inr n) (Inr probe) = Inr m \<and> md_frameRate m = value"
  using assms by (simp add: extractVideoMetadata_def metadata_try_def Let_def)

theorem frame_rate_is_evaluated_witness:
  "find (\<lambda>stream. codec_type stream = ''video'') (streams (probe_with_rate ''1+1''))
     = Some \<lparr> codec_type = ''video'', ps_width = Some 1920, ps_height = Some 1080,
              codec_name = Some ''h264'', r_frame_rate = Some ''1+1'',
              display_aspect_ratio = Some ''16:9'' \<rparr>
   \<and> eval_of_examples ''1+1'' = Inr (JNumber (Num 2))
   \<and> (\<exists>m. extractVideoMetadata eval_of_examples (Inr 1000) (Inr (probe_with_rate ''1+1'')) = Inr m
          \<and> md_frameRate m = JNumber (Num 2))
   \<and> spec_frameRate ''1+1'' = NaN"
proof -
  let ?vs = "\<lparr> codec_type = ''video'', ps_width = Some 1920, ps_height = Some 1080,
              codec_name = Some ''h264'', r_frame_rate = Some ''1+1'',
              display_aspect_ratio = Some ''16:9'' \<rparr>"
  have h1: "find (\<lambda>stream. codec_type stream = ''video'') (streams (probe_with_rate ''1+1'')) = Some ?vs"
    by (simp add: probe_with_rate_def)
  have h2: "r_frame_rate ?vs = Some ''1+1''" by simp
  have h3: "''1+1'' \<noteq> []" by simp
  have h4: "eval_of_examples ''1+1'' = Inr (JNumber (Num 2))"
    by (simp add: eval_of_examples_def)
  show ?thesis
    using frame_rate_is_evaluated [where js_eval = eval_of_examples and rate = "''1+1''"
        and n = 1000, OF h1 h2 h3 h4] h1 h4
    by (simp add: spec_frameRate_examples)
qed

section \<open>Transcoding failure\<close>

text \<open>
  C6. Whenever the transcoding stage fails in a run that reached it (the broadcast handle
  is defined and the file could be stat-ed, so that metadata extraction returned), the
  pipeline returns with the record persisted in status \<open>failed\<close>, its sensitivity
  status \<open>failed\<close> and its \<open>processingProgress\<close> still 20, the checkpoint
  written after metadata extraction. No later stage has run: the optimized path and the
  thumbnail are untouched, the analysis engine was not called, and the only events are
  the two progress events and the error event, all sent to the uploader's room.
\<close>

theorem transcode_failure_halts_pipeline:
  assumes stat: "pe_stat env = Inr n"
    and fails: "\<not> transcodes (pe_transcode env)"
  shows "\<exists>v' w'. processVideoAsync env (Some io) (v, w) = (Inr (), (v', w'))
      \<and> status v' = VFailed
      \<and> s_status (sensitivityAnalysis v') = Failed
      \<and> processingProgress v' = 20
      \<and> last (saved w') = v'
      \<and> optimizedPath v' = optimizedPath v
      \<and> thumbnail v' = thumbnail v
      \<and> analysisCalls w' = analysisCalls w
      \<and> events w' = events w @
            [mk_event (Room (user_room (uploadedBy v))) ''video-processing-progress'' (v_id v)
               (ProcessingProgress 10 (Some ''processing'') ''Starting video processing...''),
             mk_event (Room (user_room (uploadedBy v))) ''video-processing-progress'' (v_id v)
               (ProcessingProgress 20 None ''Metadata extracted...''),
             mk_event (Room (user_room (uploadedBy v))) ''video-processing-error'' (v_id v)
               (ProcessingError ''Failed to optimize video for streaming'')]"
  unfolding processVideoAsync_def processVideoAsync_try_def
  by (simp add: js_apply stage_start_Some stage_metadata_Some [OF stat]
      stage_transcode_fails [OF fails] processVideoAsync_catch_Some progressed_def
      with_metadata_def)

theorem transcode_failure_halts_pipeline_witness:
  "pe_stat transcode_failing_env = Inr 1000
   \<and> \<not> transcodes (pe_transcode transcode_failing_env)
   \<and> (\<exists>v' w'. processVideoAsync transcode_failing_env (Some IoServer) (example_video, world0)
          = (Inr (), (v', w'))
        \<and> status v' = VFailed \<and> s_status (sensitivityAnalysis v') = Failed
        \<and> processingProgress v' = 20 \<and> last (saved w') = v' \<and> analysisCalls w' = [])"
proof -
  have h1: "pe_stat transcode_failing_env = Inr 1000"
    by (simp add: transcode_failing_env_def example_pipeline_env_def)
  have h2: "\<not> transcodes (pe_transcode transcode_failing_env)"
    by (simp add: transcode_failing_env_def example_pipeline_env_def transcodes_def)
  from transcode_failure_halts_pipeline [OF h1 h2, of IoServer example_video world0]
  obtain v' w' where
    "processVideoAsync transcode_failing_env (Some IoServer) (example_video, world0) = (Inr (), (v', w'))"
    "status v' = VFailed" "s_status (sensitivityAnalysis v') = Failed"
    "processingProgress v' = 20" "last (saved w') = v'" "analysisCalls w' = analysisCalls world0"
    by blast
  then show ?thesis
    using h1 h2 by (simp add: world0_def)
qed

section \<open>Who is sent the analysis events\<close>

text \<open>
  C7 at the failing input. In every pipeline run that reaches the analysis stage (the
  handle is defined, the file could be stat-ed and transcoding succeeded), the engine's
  first progress event is sent with \<open>io.emit\<close>, on the channel of every connected
  socket, so a socket receives it whatever rooms it joined: also one that joined only
  another user's room.
\<close>

theorem analysis_progress_is_broadcast:
  assumes stat: "pe_stat env = Inr n"
    and ok: "transcodes (pe_transcode env)"
  shows "mk_event Everyone ''sensitivity-analysis-progress'' (v_id v)
             (AnalysisProgress ''Initializing content analysis...'' 0)
           \<in> set (events (snd (snd (processVideoAsync env (Some io) (v, w)))))
       \<and> receives joined (mk_event Everyone ''sensitivity-analysis-progress'' (v_id v)
             (AnalysisProgress ''Initializing content analysis...'' 0))"
proof -
  let ?e = "mk_event Everyone ''sensitivity-analysis-progress'' (v_id v)
             (AnalysisProgress ''Initializing content analysis...'' 0)"
  have "?e \<in> set (events (analysisWorld (pe_analysis env) (filePath v) (v_id v) (Some io) w1))" for w1
  proof -
    obtain evs where "events (analysisWorld (pe_analysis env) (filePath v) (v_id v) (Some io) w1)
        = events w1 @ ?e # evs"
      using analysisWorld_events [of "pe_analysis env" "filePath v" "v_id v" io w1] by blast
    then show ?thesis by simp
  qed
  then have "?e \<in> set (events (snd (snd (processVideoAsync env (Some io) (v, w)))))"
    unfolding processVideoAsync_def processVideoAsync_try_def
    by (simp add: js_apply stage_start_Some stage_metadata_Some [OF stat]
        stage_transcode_Some [OF ok] stage_thumbnail_Some stage_analysis_Some
        progressed_def with_metadata_def Let_def)
  moreover have "receives joined ?e"
    by (simp add: mk_event_def)
  ultimately show ?thesis by blast
qed

theorem analysis_progress_is_broadcast_witness:
  "pe_stat example_pipeline_env = Inr 1000
   \<and> transcodes (pe_transcode example_pipeline_env)
   \<and> uploadedBy example_video = ''alice''
   \<and> mk_event Everyone ''sensitivity-analysis-progress'' (v_id example_video)
         (AnalysisProgress ''Initializing content analysis...'' 0)
       \<in> set (events (snd (snd (processVideoAsync example_pipeline_env (Some IoServer)
                                   (example_video, world0)))))
   \<and> receives [user_room ''bob'']
         (mk_event Everyone ''sensitivity-analysis-progress'' (v_id example_video)
            (AnalysisProgress ''Initializing content analysis...'' 0))"
  using analysis_progress_is_broadcast [OF example_env_facts(1) example_env_facts(2),
      of example_video IoServer world0 "[user_room ''bob'']"]
  by (simp add: example_env_facts example_video_def newVideo_def)

section \<open>The scratch frames directory\<close>

lemma example_framesDir:
  "framesDirFor example_analysis_env (filePath example_video) (v_id example_video)
     = ''/srv/uploads/videos/temp_frames/v1''"
  "framesDirFor rmdir_failing_env (filePath example_video) (v_id example_video)
     = ''/srv/uploads/videos/temp_frames/v1''"
  by (simp_all add: framesDirFor_def example_video_def newVideo_def path_isAbsolute_def
      startsWith_def path_join_def path_dirname_def Let_def)

lemma rmdir_failing_result:
  "analysisResult rmdir_failing_env p vid (Some x) w
     = buildResults [\<lparr> suspicionScore = 0.15, brightness = Num 100, contrast = Num 10 \<rparr>]"
  unfolding analysisResult_def
  by (simp add: analysis_unfold rmdir_failing_env_def example_analysis_env_def startsWith_def
      endsWith_def analyzeFrame_def)

text \<open>
  C8, as the code has it. For every run of the engine that returns, on the success path
  and on the handled-failure path alike: when the recursive removal of the scratch
  frames directory succeeds, the directory does not exist when \<open>analyzeSensitivity\<close>
  returns. (A removal that fails is caught and logged, and the run returns all the same.)
\<close>

theorem scratch_directory_removed:
  assumes "rmdir_frames env = None"
    and "fst (analyzeSensitivity env p vid io (l, w)) = Inr r"
  shows "framesDirFor env p vid \<notin> dirs (snd (snd (analyzeSensitivity env p vid io (l, w))))"
proof (cases io)
  case None
  with assms(2) show ?thesis
    by (simp add: analyzeSensitivity_None)
next
  case (Some x)
  then show ?thesis
    using assms(1) by (simp add: analyzeSensitivity_run analysisWorld_dirs_removed)
qed

theorem scratch_directory_removed_witness:
  "rmdir_frames example_analysis_env = None
   \<and> fst (analyzeSensitivity example_analysis_env (filePath example_video) (v_id example_video)
            (Some IoServer) ((), world0))
       = Inr (buildResults [\<lparr> suspicionScore = 0.15, brightness = Num 100, contrast = Num 10 \<rparr>])
   \<and> ''/srv/uploads/videos/temp_frames/v1''
       \<notin> dirs (snd (snd (analyzeSensitivity example_analysis_env (filePath example_video)
                             (v_id example_video) (Some IoServer) ((), world0))))"
proof -
  have h1: "rmdir_frames example_analysis_env = None"
    by (simp add: example_analysis_env_def)
  have h2: "fst (analyzeSensitivity example_analysis_env (filePath example_video) (v_id example_video)
            (Some IoServer) ((), world0))
       = Inr (buildResults [\<lparr> suspicionScore = 0.15, brightness = Num 100, contrast = Num 10 \<rparr>])"
    by (simp add: analyzeSensitivity_run analysisRun_returns example_analysis_result)
  show ?thesis
    using scratch_directory_removed [OF h1 h2] h1 h2 by (simp add: example_framesDir)
qed

text \<open>
  C8 as stated fails: in this run the engine creates the directory, the removal is
  refused by the file system, the error is swallowed, the run returns its completed
  result, and the directory it created is still there.
\<close>

theorem scratch_directory_left_counterexample:
  "''/srv/uploads/videos/temp_frames/v1'' \<notin> dirs world0
   \<and> mkdir_frames rmdir_failing_env = None
   \<and> fst (analyzeSensitivity rmdir_failing_env (filePath example_video) (v_id example_video)
            (Some IoServer) ((), world0))
       = Inr (buildResults [\<lparr> suspicionScore = 0.15, brightness = Num 100, contrast = Num 10 \<rparr>])
   \<and> ''/srv/uploads/videos/temp_frames/v1''
       \<in> dirs (snd (snd (analyzeSensitivity rmdir_failing_env (filePath example_video)
                             (v_id example_video) (Some IoServer) ((), world0))))"
proof -
  have "rmdir_frames rmdir_failing_env = Some (JsError ''Error'' ''EBUSY: resource busy or locked'')"
    and m: "mkdir_frames rmdir_failing_env = None"
    by (simp_all add: rmdir_failing_env_def example_analysis_env_def)
  then have "framesDirFor rmdir_failing_env (filePath example_video) (v_id example_video)
      \<in> dirs (analysisWorld rmdir_failing_env (filePath example_video) (v_id example_video)
                (Some IoServer) world0)"
    by (rule analysisWorld_dirs_left)
  then show ?thesis
    using m by (simp add: analyzeSensitivity_run analysisRun_returns rmdir_failing_result
        example_framesDir world0_def)
qed

section \<open>Re-analysis\<close>

text \<open>
  C9, as the code has it. The route never reads \<open>sensitivityAnalysis.status\<close>: its
  whole outcome is the same whatever that status was. For every record found it saves
  the record with status \<open>processing\<close> and calls the analysis engine on it.
\<close>

theorem reanalyze_ignores_status:
  "reanalyze settings aenv
       (Inr (Some (v\<lparr> sensitivityAnalysis := (sensitivityAnalysis v)\<lparr> s_status := st \<rparr> \<rparr>))) w
     = reanalyze settings aenv
       (Inr (Some (v\<lparr> sensitivityAnalysis := (sensitivityAnalysis v)\<lparr> s_status := st' \<rparr> \<rparr>))) w
   \<and> analysisCalls (snd (snd (reanalyze settings aenv (Inr (Some v)) w)))
       = analysisCalls w @ [(filePath v, v_id v)]
   \<and> (\<exists>rest. saved (snd (snd (reanalyze settings aenv (Inr (Some v)) w)))
         = saved w @ v\<lparr> sensitivityAnalysis := (sensitivityAnalysis v)\<lparr> s_status := Processing \<rparr> \<rparr>
             # rest)"
proof (cases "settings ''socketio''")
  case None
  then show ?thesis
    by (simp add: reanalyze_def reanalyze_found_def js_apply save_apply analyzeSensitivity_None)
next
  case (Some x)
  then show ?thesis
    by (simp add: reanalyze_def reanalyze_found_def js_apply save_apply analyzeSensitivity_run
        analysisRun_returns analysisWorld_calls analysisWorld_saved)
qed

text \<open>
  C9 as stated fails: for a record whose analysis is in progress the route saves the
  record and calls the engine again.
\<close>

theorem reanalyze_during_analysis_counterexample:
  "s_status (sensitivityAnalysis video_in_analysis) = Processing
   \<and> analysisCalls (snd (snd (reanalyze (server_settings IoServer) example_analysis_env
                                (Inr (Some video_in_analysis)) world0)))
       = [(filePath video_in_analysis, v_id video_in_analysis)]
   \<and> saved (snd (snd (reanalyze (server_settings IoServer) example_analysis_env
                         (Inr (Some video_in_analysis)) world0)))
       = [video_in_analysis]"
  by (simp add: reanalyze_def reanalyze_found_def js_apply save_apply analyzeSensitivity_None
      server_settings_def video_in_analysis_def world0_def)



end
